theory Spec2Isabelle
  imports Main
begin

section \<open>Data model of the level orchestrator (src/screens/level.py)\<close>

text \<open>
  Map identifiers are the strings of the \<open>Map\<close> enumeration and of the warp names read
  from the tile maps; a position is the 2-tuple handed to \<open>Player.teleport\<close>. A 2-tuple
  is truthy in Python whatever its components, so \<open>not player_spawn\<close> holds exactly when
  \<open>player_spawn\<close> is \<open>None\<close>; a string is truthy exactly when it is not empty.
\<close>

type_synonym map_id = string
type_synonym pos = "int \<times> int"

record rect =
  rect_x :: int
  rect_y :: int
  rect_w :: int
  rect_h :: int

text \<open>\<open>pygame.Rect.colliderect\<close>: rectangles of zero width or height never collide,
  touching edges do not count, negative sizes are read as spans.\<close>

definition colliderect :: "rect \<Rightarrow> rect \<Rightarrow> bool" where
  "colliderect a b =
     (if rect_w a = 0 \<or> rect_h a = 0 \<or> rect_w b = 0 \<or> rect_h b = 0 then False
      else min (rect_x a) (rect_x a + rect_w a) < max (rect_x b) (rect_x b + rect_w b)
         \<and> min (rect_y a) (rect_y a + rect_h a) < max (rect_y b) (rect_y b + rect_h b)
         \<and> max (rect_x a) (rect_x a + rect_w a) > min (rect_x b) (rect_x b + rect_w b)
         \<and> max (rect_y a) (rect_y a + rect_h a) > min (rect_y b) (rect_y b + rect_h b))"

text \<open>\<open>FarmingTool\<close>: the three members \<open>apply_tool\<close> names; every other member
  (the seeds) is \<open>SEED k\<close>.\<close>

datatype farming_tool = AXE | HOE | WATERING_CAN | SEED nat

datatype game_state = PAUSE | SHOP

text \<open>The callables stored in a transition: the lambda and the bound methods given in
  \<open>__init__\<close>, and the \<open>partial(self.switch_to_map, name)\<close> of \<open>check_map_exit\<close>.\<close>

datatype callback =
    Switch_to_current_map
  | Switch_to_map map_id
  | Reset_day
  | Finish_transition

datatype py_error = KeyError | StopIteration

text \<open>The three \<open>warnings.warn\<close> calls, with the values formatted into their messages.\<close>

datatype warning =
    No_entry_warp "map_id option" "map_id option"
  | No_default_spawnpoint "map_id option"
  | Map_not_found map_id

datatype which_transition = Day | Map_change

text \<open>Calls the level makes on collaborators that are not part of the level itself, in
  the order in which they are made.\<close>

datatype event =
    Warn warning
  | Play_sound string
  | Switch_screen game_state
  | Post_dialog_show string
  | Post_dialog_advance
  | Quaker_start int
  | Quaker_reset
  | Camera_change_size "int \<times> int"
  | Rain_set_floor_size "int \<times> int"
  | Cutscene_start
  | Rain_update
  | Transition_update which_transition
  | All_sprites_update bool int
  | Drops_update
  | Cutscene_update int
  | Quaker_update int
  | Camera_update bool
  | Zoom_update bool int
  | Draw int bool
  | Draw_hitboxes

record tree =
  tree_hitbox_rect :: rect
  tree_hits :: nat
  tree_alive :: bool
  fruit_sprites :: "pos list"

record interactable =
  i_rect :: rect
  i_name :: string

record exit_warp =
  w_rect :: rect
  w_name :: map_id

text \<open>Modelled from the spec: the \<open>GameMap\<close> class (src/screens/game_map.py) is not part
  of the sources. This is the map descriptor it builds from a tile map: world size, entry
  warp position by origin map, optional default spawn position, and the trees,
  interactables and exit warps it puts into the level's groups. The entry warps are a
  dict, kept here in iteration (insertion) order with each key once.\<close>

record game_map =
  gm_size :: "int \<times> int"
  player_entry_warps :: "(map_id \<times> pos) list"
  player_spawnpoint :: "pos option"
  gm_trees :: "tree list"
  gm_interactions :: "interactable list"
  gm_exit_warps :: "exit_warp list"

record controls =
  debug_show_hitboxes :: int
  show_dialog :: int
  advance_dialog :: int

text \<open>A \<open>Character\<close>; \<open>is_player\<close> is \<open>isinstance(entity, Player)\<close>.\<close>

record character =
  c_rect :: rect
  hitbox_rect :: rect
  axe_hitbox :: rect
  is_player :: bool
  blocked :: bool
  direction :: "int \<times> int"
  keys :: controls

text \<open>Modelled from the spec: the \<open>Transition\<close> class (src/overlay/transition.py) is not
  part of the sources. A transition is Idle or Active, which is its truth value, and
  carries the two callbacks it was built with, \<open>reset\<close> being the one
  \<open>check_map_exit\<close> replaces.\<close>

record transition =
  active :: bool
  reset :: callback
  finish_reset :: callback

text \<open>Modelled from the spec: \<open>Transition.activate\<close> moves Idle to Active and is ignored
  while Active.\<close>

definition activate :: "transition \<Rightarrow> transition" where
  "activate t = (if active t then t else t\<lparr>active := True\<rparr>)"

record 'soil level =
  tmx_maps :: "map_id \<rightharpoonup> game_map"
  current_map :: "map_id option"
  game_map :: "game_map option"
  tree_sprites :: "tree list"
  interaction_sprites :: "interactable list"
  player_exit_warps :: "exit_warp list"
  soil_layer :: 'soil
  player :: character
  raining :: bool
  map_transition :: transition
  day_transition :: transition
  current_day :: int
  show_hitbox_active :: bool
  cutscene_active :: bool
  sky_start_color :: "int list"
  sky_time :: "int \<times> int"
  trace :: "event list"

text \<open>The behaviour of the collaborators whose code is outside the level, taken as
  parameters: the soil layer, \<open>Player.teleport\<close>, \<open>Tree.create_fruit\<close>, the sprites' own
  update (as far as it changes the player) and whether the cutscene track is active
  once started and after an update.\<close>

record 'soil collab =
  soil_reset :: "'soil \<Rightarrow> 'soil"
  soil_update :: "'soil \<Rightarrow> 'soil"
  soil_set_raining :: "bool \<Rightarrow> 'soil \<Rightarrow> 'soil"
  soil_hoe :: "pos \<Rightarrow> 'soil \<Rightarrow> bool \<times> 'soil"
  soil_water :: "pos \<Rightarrow> 'soil \<Rightarrow> bool \<times> 'soil"
  soil_plant :: "pos \<Rightarrow> farming_tool \<Rightarrow> character \<Rightarrow> 'soil \<Rightarrow> bool \<times> 'soil"
  teleport :: "pos \<Rightarrow> character \<Rightarrow> character"
  tree_create_fruit :: "tree \<Rightarrow> tree"
  entity_update :: "bool \<Rightarrow> int \<Rightarrow> character \<Rightarrow> character"
  cutscene_start :: bool
  cutscene_step :: "int \<Rightarrow> bool"

definition emit :: "event list \<Rightarrow> 'soil level \<Rightarrow> 'soil level" where
  "emit es s = s\<lparr>trace := trace s @ es\<rparr>"

section \<open>Loading and switching maps\<close>

text \<open>\<open>if from_map:\<close> of \<open>load_map\<close>.\<close>

definition truthy :: "map_id option \<Rightarrow> bool" where
  "truthy m = (case m of None \<Rightarrow> False | Some n \<Rightarrow> n \<noteq> [])"

text \<open>Lines 203 to 213: the entry warp for the origin map, and the warning when an
  origin is given without one.\<close>

definition entry_warp_for ::
  "game_map \<Rightarrow> map_id option \<Rightarrow> map_id option \<Rightarrow> map_id option \<Rightarrow> pos option \<times> warning list"
where
  "entry_warp_for gm game_map_id cur from_map =
     (if truthy from_map then
        (case map_of (player_entry_warps gm) (the from_map) of
           Some p \<Rightarrow> (Some p, [])
         | None \<Rightarrow> (None, [No_entry_warp game_map_id cur]))
      else (None, []))"

text \<open>Lines 217 to 225: the default spawnpoint, else the first entry warp;
  \<open>next(iter(...))\<close> of an empty dict raises \<open>StopIteration\<close>.\<close>

definition default_spawn ::
  "game_map \<Rightarrow> map_id option \<Rightarrow> pos option \<Rightarrow> (py_error + pos) \<times> warning list"
where
  "default_spawn gm game_map_id player_spawn =
     (case player_spawn of
        Some p \<Rightarrow> (Inr p, [])
      | None \<Rightarrow>
          (case player_spawnpoint gm of
             Some p \<Rightarrow> (Inr p, [])
           | None \<Rightarrow>
               (case player_entry_warps gm of
                  [] \<Rightarrow> (Inl StopIteration, [No_default_spawnpoint game_map_id])
                | kp # _ \<Rightarrow> (Inr (snd kp), [No_default_spawnpoint game_map_id]))))"

text \<open>\<open>Level.load_map\<close>. \<open>self.tmx_maps[game_map]\<close> raises \<open>KeyError\<close> for an identifier
  that is not registered (\<open>None\<close> included).\<close>

definition load_map ::
  "'soil collab \<Rightarrow> 'soil level \<Rightarrow> map_id option \<Rightarrow> map_id option \<Rightarrow> py_error + 'soil level"
where
  "load_map c s game_map_id from_map =
     (case (case game_map_id of None \<Rightarrow> None | Some g \<Rightarrow> tmx_maps s g) of
        None \<Rightarrow> Inl KeyError
      | Some gm \<Rightarrow>
          (let s1 = s\<lparr>tree_sprites := gm_trees gm,
                      interaction_sprites := gm_interactions gm,
                      player_exit_warps := gm_exit_warps gm,
                      soil_layer := soil_reset c (soil_layer s),
                      game_map := Some gm,
                      trace := trace s @ [Quaker_reset, Camera_change_size (gm_size gm)]\<rparr>;
               (found, w1) = entry_warp_for gm game_map_id (current_map s) from_map;
               (spawn, w2) = default_spawn gm game_map_id found
           in case spawn of
                Inl e \<Rightarrow> Inl e
              | Inr p \<Rightarrow>
                  Inr (s1\<lparr>player := teleport c p (player s1),
                          current_map := game_map_id,
                          cutscene_active := cutscene_start c,
                          trace := trace s1 @ map Warn (w1 @ w2)
                                   @ [Rain_set_floor_size (gm_size gm), Cutscene_start]\<rparr>)))"

text \<open>\<open>Level.switch_to_map\<close>; a registered tile map is an object, hence truthy.\<close>

definition switch_to_map ::
  "'soil collab \<Rightarrow> 'soil level \<Rightarrow> map_id \<Rightarrow> py_error + 'soil level"
where
  "switch_to_map c s map_name =
     (if tmx_maps s map_name \<noteq> None then load_map c s (Some map_name) (current_map s)
      else load_map c (emit [Warn (Map_not_found map_name)] s) (current_map s) (Some map_name))"

text \<open>The warnings a successful call added to the trace.\<close>

primrec warnings_of :: "event list \<Rightarrow> warning list" where
  "warnings_of [] = []"
| "warnings_of (e # es) = (case e of Warn w \<Rightarrow> [w] | _ \<Rightarrow> []) @ warnings_of es"

text \<open>The warnings one call of \<open>load_map\<close> emits, when it returns.\<close>

definition load_warnings ::
  "'soil collab \<Rightarrow> 'soil level \<Rightarrow> map_id option \<Rightarrow> map_id option \<Rightarrow> warning list option"
where
  "load_warnings c s game_map_id from_map =
     (case load_map c s game_map_id from_map of
        Inl e \<Rightarrow> None
      | Inr s' \<Rightarrow> Some (warnings_of (drop (length (trace s)) (trace s'))))"

section \<open>Tools, interaction and events\<close>

text \<open>\<open>pygame.sprite.spritecollide(sprite, group, False, collided)\<close>: the sprites of the
  group that collide, in the group's order; a sprite is named by its place in the group,
  so that a change made to a collided sprite is a change of that member of the group.\<close>

definition spritecollide :: "('a \<Rightarrow> bool) \<Rightarrow> 'a list \<Rightarrow> nat list" where
  "spritecollide collided sprites = filter (\<lambda>i. collided (sprites ! i)) [0..<length sprites]"

text \<open>\<open>Level._play_playeronly_sound\<close>.\<close>

definition play_playeronly_sound :: "string \<Rightarrow> character \<Rightarrow> 'soil level \<Rightarrow> 'soil level" where
  "play_playeronly_sound sound entity s =
     (if is_player entity then emit [Play_sound sound] s else s)"

text \<open>The \<open>collided\<close> callback of the axe branch.\<close>

definition axe_collides :: "character \<Rightarrow> tree \<Rightarrow> bool" where
  "axe_collides entity tree_spr = colliderect (axe_hitbox entity) (tree_hitbox_rect tree_spr)"

text \<open>\<open>Tree.hit\<close> is outside the level; \<open>tree_hits\<close> counts the calls a tree received.\<close>

definition hit :: "tree \<Rightarrow> tree" where
  "hit t = t\<lparr>tree_hits := Suc (tree_hits t)\<rparr>"

text \<open>The body of the loop of the axe branch, for the collided tree at place \<open>i\<close>.\<close>

definition axe_step :: "character \<Rightarrow> 'soil level \<Rightarrow> nat \<Rightarrow> 'soil level" where
  "axe_step entity s i =
     play_playeronly_sound ''axe'' entity
       (s\<lparr>tree_sprites := (tree_sprites s)[i := hit (tree_sprites s ! i)]\<rparr>)"

text \<open>\<open>Level.apply_tool\<close>.\<close>

definition apply_tool ::
  "'soil collab \<Rightarrow> farming_tool \<Rightarrow> pos \<Rightarrow> character \<Rightarrow> 'soil level \<Rightarrow> 'soil level"
where
  "apply_tool c tool p entity s =
     (case tool of
        AXE \<Rightarrow>
          foldl (axe_step entity) s (spritecollide (axe_collides entity) (tree_sprites s))
      | HOE \<Rightarrow>
          (let (ok, soil) = soil_hoe c p (soil_layer s);
               s1 = s\<lparr>soil_layer := soil\<rparr>
           in if ok then play_playeronly_sound ''hoe'' entity s1 else s1)
      | WATERING_CAN \<Rightarrow>
          (let (ok, soil) = soil_water c p (soil_layer s)
           in play_playeronly_sound ''water'' entity (s\<lparr>soil_layer := soil\<rparr>))
      | SEED k \<Rightarrow>
          (let (ok, soil) = soil_plant c p tool entity (soil_layer s);
               s1 = s\<lparr>soil_layer := soil\<rparr>
           in if ok then play_playeronly_sound ''plant'' entity s1
              else play_playeronly_sound ''cant_plant'' entity s1))"

text \<open>\<open>Level.start_transition\<close>, \<open>finish_transition\<close>, \<open>start_day_transition\<close> and
  \<open>start_map_transition\<close>.\<close>

definition start_transition :: "'soil level \<Rightarrow> 'soil level" where
  "start_transition s = s\<lparr>player := (player s)\<lparr>blocked := True, direction := (0, 0)\<rparr>\<rparr>"

definition finish_transition :: "'soil level \<Rightarrow> 'soil level" where
  "finish_transition s = s\<lparr>player := (player s)\<lparr>blocked := False\<rparr>\<rparr>"

definition start_day_transition :: "'soil level \<Rightarrow> 'soil level" where
  "start_day_transition s =
     start_transition (s\<lparr>day_transition := activate (day_transition s)\<rparr>)"

definition start_map_transition :: "'soil level \<Rightarrow> 'soil level" where
  "start_map_transition s =
     start_transition (s\<lparr>map_transition := activate (map_transition s)\<rparr>)"

text \<open>\<open>Level.interact\<close>; the default collision test of \<open>spritecollide\<close> is
  \<open>sprite.rect.colliderect(group_sprite.rect)\<close>.\<close>

definition interact :: "'soil level \<Rightarrow> 'soil level" where
  "interact s =
     (let collided_interactions =
            spritecollide (\<lambda>spr. colliderect (c_rect (player s)) (i_rect spr))
              (interaction_sprites s)
      in if collided_interactions \<noteq> [] then
           (let first = interaction_sprites s ! hd collided_interactions;
                s1 = (if i_name first = ''Bed'' then start_day_transition s else s)
            in if i_name first = ''Trader'' then emit [Switch_screen SHOP] s1 else s1)
         else s)"

text \<open>The events \<open>handle_event\<close> tells apart: a key press with its key, the start-quake
  signal with its duration, anything else.\<close>

datatype pg_event = KEYDOWN int | START_QUAKE int | OTHER_EVENT

definition K_ESCAPE :: int where
  "K_ESCAPE = 27"

text \<open>\<open>Level.handle_event\<close>: the returned boolean and the level afterwards.\<close>

definition handle_event :: "pg_event \<Rightarrow> 'soil level \<Rightarrow> bool \<times> 'soil level" where
  "handle_event ev s =
     (case ev of
        KEYDOWN k \<Rightarrow>
          (if k = K_ESCAPE then (True, emit [Switch_screen PAUSE] s)
           else if k = debug_show_hitboxes (keys (player s)) then
             (True, s\<lparr>show_hitbox_active := \<not> show_hitbox_active s\<rparr>)
           else if k = show_dialog (keys (player s)) then
             (True, emit [Post_dialog_show ''test''] s)
           else if k = advance_dialog (keys (player s)) then
             (True, emit [Post_dialog_advance] s)
           else (False, s))
      | START_QUAKE duration \<Rightarrow> (False, emit [Quaker_start duration] s)
      | OTHER_EVENT \<Rightarrow> (False, s))"

section \<open>Day reset and the frame tick\<close>

text \<open>The loop body of \<open>Level.reset\<close> for one tree: \<open>fruit.kill()\<close> takes every fruit out
  of the tree's group, then a tree that is alive grows new fruit.\<close>

definition reset_tree :: "'soil collab \<Rightarrow> tree \<Rightarrow> tree" where
  "reset_tree c t =
     (let t1 = t\<lparr>fruit_sprites := []\<rparr>
      in if tree_alive t1 then tree_create_fruit c t1 else t1)"

text \<open>\<open>Level.reset\<close>; \<open>r\<close> is the value \<open>randint(0, 10)\<close> returns, and \<open>sky_time\<close> holds
  the arguments of the last \<open>sky.set_time\<close>.\<close>

definition reset_day :: "'soil collab \<Rightarrow> int \<Rightarrow> 'soil level \<Rightarrow> 'soil level" where
  "reset_day c r s =
     s\<lparr>current_day := current_day s + 1,
       soil_layer := soil_set_raining c (r > 7) (soil_update c (soil_layer s)),
       raining := (r > 7),
       tree_sprites := map (reset_tree c) (tree_sprites s),
       sky_start_color := [255, 255, 255],
       sky_time := (6, 0)\<rparr>"

text \<open>The loop of \<open>Level.check_map_exit\<close> over the exit warps.\<close>

fun scan_exit_warps :: "exit_warp list \<Rightarrow> 'soil level \<Rightarrow> 'soil level" where
  "scan_exit_warps [] s = s"
| "scan_exit_warps (warp_hitbox # rest) s =
     (if colliderect (hitbox_rect (player s)) (w_rect warp_hitbox) then
        start_map_transition
          (s\<lparr>map_transition := (map_transition s)\<lparr>reset := Switch_to_map (w_name warp_hitbox)\<rparr>\<rparr>)
      else scan_exit_warps rest s)"

text \<open>\<open>Level.check_map_exit\<close>; a transition is truthy while it is active.\<close>

definition check_map_exit :: "'soil level \<Rightarrow> 'soil level" where
  "check_map_exit s =
     (if \<not> active (map_transition s) then scan_exit_warps (player_exit_warps s) s else s)"

text \<open>Running a stored callable.\<close>

definition run_callback ::
  "'soil collab \<Rightarrow> int \<Rightarrow> callback \<Rightarrow> 'soil level \<Rightarrow> py_error + 'soil level"
where
  "run_callback c r cb s =
     (case cb of
        Switch_to_current_map \<Rightarrow>
          (case current_map s of
             Some m \<Rightarrow> switch_to_map c s m
           | None \<Rightarrow> Inl KeyError)
      | Switch_to_map m \<Rightarrow> switch_to_map c s m
      | Reset_day \<Rightarrow> Inr (reset_day c r s)
      | Finish_transition \<Rightarrow> Inr (finish_transition s))"

text \<open>Modelled from the spec: \<open>Transition.update\<close> is not part of the sources and reads
  the wall clock. What one update of an active transition does is an input of the tick:
  the callbacks it invokes, in order, and whether it stays Active. An Idle transition
  does nothing.\<close>

datatype slot = Reset_slot | Finish_slot

record timer_step =
  fired :: "slot list"
  stays_active :: bool

text \<open>\<open>self.day_transition\<close> or \<open>self.map_transition\<close>, and the change of its state.\<close>

definition get_transition :: "which_transition \<Rightarrow> 'soil level \<Rightarrow> transition" where
  "get_transition w s = (case w of Day \<Rightarrow> day_transition s | Map_change \<Rightarrow> map_transition s)"

definition set_active :: "which_transition \<Rightarrow> bool \<Rightarrow> 'soil level \<Rightarrow> 'soil level" where
  "set_active w b s =
     (case w of
        Day \<Rightarrow> s\<lparr>day_transition := (day_transition s)\<lparr>active := b\<rparr>\<rparr>
      | Map_change \<Rightarrow> s\<lparr>map_transition := (map_transition s)\<lparr>active := b\<rparr>\<rparr>)"

text \<open>Modelled from the spec: the callbacks one update invokes, each read from the
  transition at the moment it is called; an exception of a callback ends the update.\<close>

fun fire ::
  "'soil collab \<Rightarrow> int \<Rightarrow> which_transition \<Rightarrow> slot list \<Rightarrow> 'soil level \<Rightarrow> py_error + 'soil level"
where
  "fire c r w [] s = Inr s"
| "fire c r w (sl # sls) s =
     (case run_callback c r
             (case sl of Reset_slot \<Rightarrow> reset (get_transition w s)
                       | Finish_slot \<Rightarrow> finish_reset (get_transition w s)) s of
        Inl e \<Rightarrow> Inl e
      | Inr s1 \<Rightarrow> fire c r w sls s1)"

text \<open>Modelled from the spec: \<open>Transition.update\<close>, with the outcome of the clock as
  input.\<close>

definition transition_update ::
  "'soil collab \<Rightarrow> int \<Rightarrow> which_transition \<Rightarrow> timer_step \<Rightarrow> 'soil level \<Rightarrow> py_error + 'soil level"
where
  "transition_update c r w st s =
     (let s0 = emit [Transition_update w] s
      in if \<not> active (get_transition w s0) then Inr s0
         else (case fire c r w (fired st) s0 of
                 Inl e \<Rightarrow> Inl e
               | Inr s1 \<Rightarrow> Inr (set_active w (stays_active st) s1)))"

text \<open>\<open>Level.update_rain\<close>.\<close>

definition update_rain :: "'soil level \<Rightarrow> 'soil level" where
  "update_rain s = (if raining s then emit [Rain_update] s else s)"

text \<open>The \<open>if move_things:\<close> block of \<open>Level.update\<close>.\<close>

definition move_things_block :: "'soil collab \<Rightarrow> int \<Rightarrow> 'soil level \<Rightarrow> 'soil level" where
  "move_things_block c dt s =
     (let a = cutscene_active s;
          s1 = emit [All_sprites_update a dt, Drops_update]
                 (s\<lparr>player := entity_update c a dt (player s)\<rparr>);
          s2 = (if a then emit [Cutscene_update dt] (s1\<lparr>cutscene_active := cutscene_step c dt\<rparr>)
                else s1)
      in emit [Quaker_update dt, Camera_update (cutscene_active s2),
               Zoom_update (cutscene_active s2) dt] s2)"

text \<open>\<open>Level.draw\<close> and \<open>Level.draw_hitboxes\<close>, as far as the level's state goes.\<close>

definition draw :: "int \<Rightarrow> bool \<Rightarrow> 'soil level \<Rightarrow> 'soil level" where
  "draw dt move_things s = emit [Draw dt move_things] s"

definition draw_hitboxes :: "'soil level \<Rightarrow> 'soil level" where
  "draw_hitboxes s = (if show_hitbox_active s then emit [Draw_hitboxes] s else s)"

text \<open>The part of \<open>Level.update\<close> that comes before the \<open>if move_things:\<close> block.\<close>

definition update_head ::
  "'soil collab \<Rightarrow> int \<Rightarrow> timer_step \<Rightarrow> timer_step \<Rightarrow> 'soil level \<Rightarrow> py_error + 'soil level"
where
  "update_head c r day_step map_step s =
     (case transition_update c r Day day_step (update_rain (check_map_exit s)) of
        Inl e \<Rightarrow> Inl e
      | Inr s3 \<Rightarrow> transition_update c r Map_change map_step s3)"

text \<open>\<open>Level.update\<close>.\<close>

definition update ::
  "'soil collab \<Rightarrow> int \<Rightarrow> timer_step \<Rightarrow> timer_step \<Rightarrow> int \<Rightarrow> bool \<Rightarrow> 'soil level
     \<Rightarrow> py_error + 'soil level"
where
  "update c r day_step map_step dt move_things s =
     (case update_head c r day_step map_step s of
        Inl e \<Rightarrow> Inl e
      | Inr s4 \<Rightarrow>
          Inr (draw_hitboxes (draw dt move_things
                 (if move_things then move_things_block c dt s4 else s4))))"

text \<open>No event of the list is an update of the sprites.\<close>

definition no_sprites_update :: "event list \<Rightarrow> bool" where
  "no_sprites_update es =
     list_all (\<lambda>e. case e of All_sprites_update a dt \<Rightarrow> False | _ \<Rightarrow> True) es"

section \<open>A small world to run the level on\<close>

definition ex_rect :: "int \<Rightarrow> int \<Rightarrow> rect" where
  "ex_rect x y = \<lparr>rect_x = x, rect_y = y, rect_w = 10, rect_h = 10\<rparr>"

definition ex_player :: character where
  "ex_player = \<lparr>c_rect = ex_rect 0 0, hitbox_rect = ex_rect 0 0, axe_hitbox = ex_rect 8 0,
                is_player = True, blocked = False, direction = (1, 0),
                keys = \<lparr>debug_show_hitboxes = 104, show_dialog = 116, advance_dialog = 32\<rparr>\<rparr>"

definition ex_npc :: character where
  "ex_npc = ex_player\<lparr>is_player := False\<rparr>"

definition ex_tree :: "int \<Rightarrow> tree" where
  "ex_tree x = \<lparr>tree_hitbox_rect = ex_rect x 0, tree_hits = 0, tree_alive = True,
               fruit_sprites = [(x, 1)]\<rparr>"

definition ex_farm :: game_map where
  "ex_farm = \<lparr>gm_size = (100, 100),
              player_entry_warps = [(''forest'', (5, 6)), (''town'', (7, 8))],
              player_spawnpoint = Some (1, 2),
              gm_trees = [ex_tree 15, ex_tree 40],
              gm_interactions = [\<lparr>i_rect = ex_rect 5 5, i_name = ''Bed''\<rparr>,
                                 \<lparr>i_rect = ex_rect 6 6, i_name = ''Trader''\<rparr>],
              gm_exit_warps = [\<lparr>w_rect = ex_rect 5 0, w_name = ''forest''\<rparr>,
                               \<lparr>w_rect = ex_rect 6 0, w_name = ''town''\<rparr>]\<rparr>"

definition ex_forest :: game_map where
  "ex_forest = \<lparr>gm_size = (50, 50),
                player_entry_warps = [(''farm'', (3, 4)), (''town'', (9, 9))],
                player_spawnpoint = None,
                gm_trees = [], gm_interactions = [], gm_exit_warps = []\<rparr>"

definition ex_teleport :: "pos \<Rightarrow> character \<Rightarrow> character" where
  "ex_teleport p ch = ch\<lparr>c_rect := ex_rect (fst p) (snd p), hitbox_rect := ex_rect (fst p) (snd p)\<rparr>"

definition ex_entity_update :: "bool \<Rightarrow> int \<Rightarrow> character \<Rightarrow> character" where
  "ex_entity_update a dt ch =
     (if a \<or> blocked ch then ch
      else ch\<lparr>hitbox_rect := (hitbox_rect ch)\<lparr>rect_x := rect_x (hitbox_rect ch) + fst (direction ch) * dt,
                                                rect_y := rect_y (hitbox_rect ch) + snd (direction ch) * dt\<rparr>\<rparr>)"

definition ex_collab :: "nat collab" where
  "ex_collab = \<lparr>soil_reset = (\<lambda>_. 0), soil_update = Suc, soil_set_raining = (\<lambda>_ g. g),
                soil_hoe = (\<lambda>p g. (even (fst p), g)),
                soil_water = (\<lambda>p g. (False, g)),
                soil_plant = (\<lambda>p t e g. (even (fst p), g)),
                teleport = ex_teleport,
                tree_create_fruit = (\<lambda>t. t\<lparr>fruit_sprites := [(0, 0), (1, 1)]\<rparr>),
                entity_update = ex_entity_update,
                cutscene_start = False,
                cutscene_step = (\<lambda>_. False)\<rparr>"

definition ex_transition :: "callback \<Rightarrow> transition" where
  "ex_transition cb = \<lparr>active = False, reset = cb, finish_reset = Finish_transition\<rparr>"

definition ex_level :: "nat level" where
  "ex_level = \<lparr>tmx_maps = [''farm'' \<mapsto> ex_farm, ''forest'' \<mapsto> ex_forest],
               current_map = Some ''farm'',
               game_map = Some ex_farm,
               tree_sprites = gm_trees ex_farm,
               interaction_sprites = gm_interactions ex_farm,
               player_exit_warps = gm_exit_warps ex_farm,
               soil_layer = 0,
               player = ex_player,
               raining = False,
               map_transition = ex_transition Switch_to_current_map,
               day_transition = ex_transition Reset_day,
               current_day = 0,
               show_hitbox_active = False,
               cutscene_active = False,
               sky_start_color = [0, 0, 0],
               sky_time = (20, 0),
               trace = []\<rparr>"

definition idle_step :: timer_step where
  "idle_step = \<lparr>fired = [], stays_active = True\<rparr>"

text \<open>The level in the tick in which the player of \<open>ex_level\<close> walks into the exit warp to
  the forest, at the moment the sprites are about to be updated.\<close>

definition ex_level_exit :: "nat level" where
  "ex_level_exit =
     ex_level\<lparr>map_transition := \<lparr>active = True, reset = Switch_to_map ''forest'',
                                  finish_reset = Finish_transition\<rparr>,
              player := ex_player\<lparr>blocked := True, direction := (0, 0)\<rparr>,
              trace := [Transition_update Day, Transition_update Map_change]\<rparr>"

section \<open>Spawn resolution\<close>

lemma load_map_registered:
  assumes "tmx_maps s g = Some gm"
  shows "load_map c s (Some g) from_map =
     (case fst (default_spawn gm (Some g) (fst (entry_warp_for gm (Some g) (current_map s) from_map))) of
        Inl e \<Rightarrow> Inl e
      | Inr p \<Rightarrow>
          Inr (s\<lparr>tree_sprites := gm_trees gm,
                 interaction_sprites := gm_interactions gm,
                 player_exit_warps := gm_exit_warps gm,
                 soil_layer := soil_reset c (soil_layer s),
                 game_map := Some gm,
                 player := teleport c p (player s),
                 current_map := Some g,
                 cutscene_active := cutscene_start c,
                 trace := trace s @ [Quaker_reset, Camera_change_size (gm_size gm)]
                   @ map Warn (snd (entry_warp_for gm (Some g) (current_map s) from_map)
                        @ snd (default_spawn gm (Some g)
                                 (fst (entry_warp_for gm (Some g) (current_map s) from_map))))
                   @ [Rain_set_floor_size (gm_size gm), Cutscene_start]\<rparr>))"
  using assms
  by (simp add: load_map_def Let_def split: prod.splits sum.splits)

lemma entry_warp_some:
  "origin \<noteq> [] \<Longrightarrow> map_of (player_entry_warps gm) origin = Some p \<Longrightarrow>
   entry_warp_for gm g cur (Some origin) = (Some p, [])"
  by (simp add: entry_warp_for_def truthy_def)

lemma entry_warp_none:
  "\<not> (\<exists>origin. from_map = Some origin \<and> origin \<noteq> [] \<and>
         map_of (player_entry_warps gm) origin \<noteq> None) \<Longrightarrow>
   fst (entry_warp_for gm g cur from_map) = None"
  by (cases from_map) (auto simp: entry_warp_for_def truthy_def split: option.splits)

lemma load_map_player:
  assumes "tmx_maps s g = Some gm"
    and "fst (default_spawn gm (Some g) (fst (entry_warp_for gm (Some g) (current_map s) from_map))) = Inr p"
  shows "\<exists>s'. load_map c s (Some g) from_map = Inr s' \<and> player s' = teleport c p (player s)
            \<and> current_map s' = Some g"
  unfolding load_map_registered [OF assms(1)] assms(2) by simp

lemma load_map_error:
  assumes "tmx_maps s g = Some gm"
  shows "(\<exists>e. load_map c s (Some g) from_map = Inl e) \<longleftrightarrow>
     (\<exists>e. fst (default_spawn gm (Some g) (fst (entry_warp_for gm (Some g) (current_map s) from_map))) = Inl e)"
  unfolding load_map_registered [OF assms(1)] by (simp split: sum.splits)


lemma default_spawn_found: "fst (default_spawn gm g (Some p)) = Inr p"
  by (simp add: default_spawn_def)

lemma default_spawn_point:
  "player_spawnpoint gm = Some p \<Longrightarrow> fst (default_spawn gm g None) = Inr p"
  by (simp add: default_spawn_def)

lemma default_spawn_first:
  "player_spawnpoint gm = None \<Longrightarrow> player_entry_warps gm = (k, p) # rest \<Longrightarrow>
   fst (default_spawn gm g None) = Inr p"
  by (simp add: default_spawn_def)

lemma default_spawn_fails:
  "(\<exists>e. fst (default_spawn gm g found) = Inl e) \<longleftrightarrow>
   found = None \<and> player_spawnpoint gm = None \<and> player_entry_warps gm = []"
  by (simp add: default_spawn_def split: option.splits list.splits)

lemma entry_warp_found_nonempty:
  "fst (entry_warp_for gm g cur from_map) = Some p \<Longrightarrow> player_entry_warps gm \<noteq> []"
  by (auto simp: entry_warp_for_def split: if_splits option.splits)

text \<open>
  C1: on a load of a registered map the spawn is resolved in three tiers. An origin that
  is given (a non-empty identifier, as \<open>if from_map:\<close> reads it) and has an entry warp
  sends the player to that warp, whether or not a default spawnpoint exists; otherwise
  the default spawnpoint is used if there is one; otherwise the first entry warp in
  iteration order. The load fails exactly when the map has neither a default spawnpoint
  nor any entry warp.
\<close>

theorem load_map_spawn_priority:
  assumes "tmx_maps s g = Some gm"
  shows
   "(\<forall>origin p. from_map = Some origin \<and> origin \<noteq> [] \<and>
        map_of (player_entry_warps gm) origin = Some p \<longrightarrow>
        (\<exists>s'. load_map c s (Some g) from_map = Inr s' \<and> player s' = teleport c p (player s)))
    \<and> (\<forall>p. \<not> (\<exists>origin. from_map = Some origin \<and> origin \<noteq> [] \<and>
                map_of (player_entry_warps gm) origin \<noteq> None) \<and>
            player_spawnpoint gm = Some p \<longrightarrow>
        (\<exists>s'. load_map c s (Some g) from_map = Inr s' \<and> player s' = teleport c p (player s)))
    \<and> (\<forall>k p rest. \<not> (\<exists>origin. from_map = Some origin \<and> origin \<noteq> [] \<and>
                map_of (player_entry_warps gm) origin \<noteq> None) \<and>
            player_spawnpoint gm = None \<and> player_entry_warps gm = (k, p) # rest \<longrightarrow>
        (\<exists>s'. load_map c s (Some g) from_map = Inr s' \<and> player s' = teleport c p (player s)))
    \<and> ((\<exists>e. load_map c s (Some g) from_map = Inl e) \<longleftrightarrow>
          player_spawnpoint gm = None \<and> player_entry_warps gm = [])"
proof (intro conjI allI impI)
  fix origin p
  assume h: "from_map = Some origin \<and> origin \<noteq> [] \<and> map_of (player_entry_warps gm) origin = Some p"
  then have "fst (default_spawn gm (Some g)
                (fst (entry_warp_for gm (Some g) (current_map s) from_map))) = Inr p"
    by (simp add: entry_warp_some default_spawn_found)
  from load_map_player [OF assms this]
  show "\<exists>s'. load_map c s (Some g) from_map = Inr s' \<and> player s' = teleport c p (player s)"
    by blast
next
  fix p
  assume h: "\<not> (\<exists>origin. from_map = Some origin \<and> origin \<noteq> [] \<and>
                map_of (player_entry_warps gm) origin \<noteq> None) \<and> player_spawnpoint gm = Some p"
  then have "fst (entry_warp_for gm (Some g) (current_map s) from_map) = None"
    by (intro entry_warp_none) blast
  with h have "fst (default_spawn gm (Some g)
                (fst (entry_warp_for gm (Some g) (current_map s) from_map))) = Inr p"
    by (simp add: default_spawn_point)
  from load_map_player [OF assms this]
  show "\<exists>s'. load_map c s (Some g) from_map = Inr s' \<and> player s' = teleport c p (player s)"
    by blast
next
  fix k p rest
  assume h: "\<not> (\<exists>origin. from_map = Some origin \<and> origin \<noteq> [] \<and>
                map_of (player_entry_warps gm) origin \<noteq> None) \<and>
            player_spawnpoint gm = None \<and> player_entry_warps gm = (k, p) # rest"
  then have "fst (entry_warp_for gm (Some g) (current_map s) from_map) = None"
    by (intro entry_warp_none) blast
  with h have "fst (default_spawn gm (Some g)
                (fst (entry_warp_for gm (Some g) (current_map s) from_map))) = Inr p"
    by (simp add: default_spawn_first [of gm k p rest])
  from load_map_player [OF assms this]
  show "\<exists>s'. load_map c s (Some g) from_map = Inr s' \<and> player s' = teleport c p (player s)"
    by blast
next
  show "(\<exists>e. load_map c s (Some g) from_map = Inl e) \<longleftrightarrow>
          player_spawnpoint gm = None \<and> player_entry_warps gm = []"
    unfolding load_map_error [OF assms] default_spawn_fails
    using entry_warp_found_nonempty [of gm "Some g" "current_map s" from_map]
    by (cases "fst (entry_warp_for gm (Some g) (current_map s) from_map)")
       (auto simp: entry_warp_for_def split: if_splits option.splits)
qed

theorem load_map_spawn_priority_witness:
  "tmx_maps ex_level ''farm'' = Some ex_farm
   \<and> (\<exists>s'. load_map ex_collab ex_level (Some ''farm'') (Some ''forest'') = Inr s'
          \<and> player s' = teleport ex_collab (5, 6) (player ex_level))"
proof -
  have reg: "tmx_maps ex_level ''farm'' = Some ex_farm"
    by (simp add: ex_level_def)
  have w: "Some ''forest'' = Some ''forest'' \<and> ''forest'' \<noteq> [] \<and>
           map_of (player_entry_warps ex_farm) ''forest'' = Some (5, 6)"
    by (simp add: ex_farm_def)
  note t = load_map_spawn_priority [OF reg, of "Some ''forest''" ex_collab]
  from t [THEN conjunct1, rule_format, OF w] reg show ?thesis
    by (rule_tac conjI)
qed


section \<open>Warnings of a load\<close>

lemma warnings_of_append: "warnings_of (xs @ ys) = warnings_of xs @ warnings_of ys"
  by (induction xs) simp_all

lemma warnings_of_Warn: "warnings_of (map Warn ws) = ws"
  by (induction ws) simp_all

lemma load_map_current_map: "load_map c s gid fm = Inr s' \<Longrightarrow> current_map s' = gid"
  by (auto simp: load_map_def Let_def split: option.splits prod.splits sum.splits)

lemma load_warnings_registered:
  assumes "tmx_maps s g = Some gm"
  shows "load_warnings c s (Some g) from_map =
     (case fst (default_spawn gm (Some g) (fst (entry_warp_for gm (Some g) (current_map s) from_map))) of
        Inl e \<Rightarrow> None
      | Inr p \<Rightarrow> Some (snd (entry_warp_for gm (Some g) (current_map s) from_map)
                        @ snd (default_spawn gm (Some g)
                                 (fst (entry_warp_for gm (Some g) (current_map s) from_map)))))"
  unfolding load_warnings_def load_map_registered [OF assms]
  by (simp add: warnings_of_append warnings_of_Warn split: sum.splits)

text \<open>
  C9, amended: a load that returns emits one warning when a given origin has no entry
  warp, and one more when no entry warp was found and the map has no default spawnpoint.
  So the fallback to the default spawnpoint after a missing warp emits exactly one
  warning, the fallback to the first entry warp emits two when an origin was given and
  one when none was, and a load without origin onto a default spawnpoint emits none.
\<close>

theorem load_map_warning_count:
  assumes "tmx_maps s g = Some gm"
  shows "load_warnings c s (Some g) from_map =
     (if player_spawnpoint gm = None \<and> player_entry_warps gm = [] then None
      else Some
        ((if truthy from_map \<and> map_of (player_entry_warps gm) (the from_map) = None
          then [No_entry_warp (Some g) (current_map s)] else [])
         @ (if (\<not> truthy from_map \<or> map_of (player_entry_warps gm) (the from_map) = None)
               \<and> player_spawnpoint gm = None
            then [No_default_spawnpoint (Some g)] else [])))"
  unfolding load_warnings_registered [OF assms]
  by (auto simp: entry_warp_for_def default_spawn_def split: option.splits list.splits)

theorem load_map_warning_count_witness:
  "tmx_maps ex_level ''farm'' = Some ex_farm
   \<and> load_warnings ex_collab ex_level (Some ''farm'') (Some ''beach'')
       = Some [No_entry_warp (Some ''farm'') (Some ''farm'')]"
proof -
  have reg: "tmx_maps ex_level ''farm'' = Some ex_farm"
    by (simp add: ex_level_def)
  have "truthy (Some ''beach'') \<and> map_of (player_entry_warps ex_farm) ''beach'' = None
        \<and> player_spawnpoint ex_farm \<noteq> None \<and> current_map ex_level = Some ''farm''"
    by (simp add: truthy_def ex_farm_def ex_level_def)
  with load_map_warning_count [OF reg, of ex_collab "Some ''beach''"] reg
  show ?thesis by simp
qed

text \<open>
  C9 as stated fails: the forest has no default spawnpoint and no entry warp for the
  origin \<open>beach\<close>, the first entry warp is used, and two warnings are emitted.
\<close>

theorem load_map_two_warnings_counterexample:
  "load_warnings ex_collab ex_level (Some ''forest'') (Some ''beach'')
     = Some [No_entry_warp (Some ''forest'') (Some ''farm''), No_default_spawnpoint (Some ''forest'')]"
proof -
  have reg: "tmx_maps ex_level ''forest'' = Some ex_forest"
    by (simp add: ex_level_def)
  have e: "entry_warp_for ex_forest (Some ''forest'') (Some ''farm'') (Some ''beach'')
             = (None, [No_entry_warp (Some ''forest'') (Some ''farm'')])"
    by (simp add: entry_warp_for_def truthy_def ex_forest_def)
  have d: "default_spawn ex_forest (Some ''forest'') None
             = (Inr (3, 4), [No_default_spawnpoint (Some ''forest'')])"
    by (simp add: default_spawn_def ex_forest_def)
  have c: "current_map ex_level = Some ''farm''"
    by (simp add: ex_level_def)
  show ?thesis
    unfolding load_warnings_registered [OF reg] c e by (simp add: d)
qed


section \<open>Switching maps\<close>

lemma switch_to_map_unknown:
  "tmx_maps s m = None \<Longrightarrow>
   switch_to_map c s m = load_map c (emit [Warn (Map_not_found m)] s) (current_map s) (Some m)"
  by (simp add: switch_to_map_def)

lemma switch_to_map_known:
  "tmx_maps s m = Some gm \<Longrightarrow> switch_to_map c s m = load_map c s (Some m) (current_map s)"
  by (simp add: switch_to_map_def)

lemma emit_fields [simp]:
  "tmx_maps (emit es s) = tmx_maps s"
  "current_map (emit es s) = current_map s"
  "player (emit es s) = player s"
  "trace (emit es s) = trace s @ es"
  by (simp_all add: emit_def)

lemma load_map_trace:
  "load_map c s gid fm = Inr s' \<Longrightarrow> \<exists>es. trace s' = trace s @ es"
  by (auto simp: load_map_def Let_def split: option.splits prod.splits sum.splits)

lemma load_map_at_entry_warp:
  assumes "tmx_maps s g = Some gm" and "origin \<noteq> []"
    and "map_of (player_entry_warps gm) origin = Some p"
  shows "\<exists>s'. load_map c s (Some g) (Some origin) = Inr s'
            \<and> player s' = teleport c p (player s) \<and> current_map s' = Some g"
proof -
  from assms(2,3) have "fst (default_spawn gm (Some g)
      (fst (entry_warp_for gm (Some g) (current_map s) (Some origin)))) = Inr p"
    by (simp add: entry_warp_some default_spawn_found)
  from load_map_player [OF assms(1) this] show ?thesis .
qed

lemma load_map_at_spawnpoint:
  assumes "tmx_maps s g = Some gm"
    and "\<not> (\<exists>origin. from_map = Some origin \<and> origin \<noteq> [] \<and>
              map_of (player_entry_warps gm) origin \<noteq> None)"
    and "player_spawnpoint gm = Some p"
  shows "\<exists>s'. load_map c s (Some g) from_map = Inr s'
            \<and> player s' = teleport c p (player s) \<and> current_map s' = Some g"
proof -
  from assms(2) have "fst (entry_warp_for gm (Some g) (current_map s) from_map) = None"
    by (rule entry_warp_none)
  with assms(3) have "fst (default_spawn gm (Some g)
      (fst (entry_warp_for gm (Some g) (current_map s) from_map))) = Inr p"
    by (simp add: default_spawn_point)
  from load_map_player [OF assms(1) this] show ?thesis .
qed

lemma load_map_at_first_warp:
  assumes "tmx_maps s g = Some gm"
    and "\<not> (\<exists>origin. from_map = Some origin \<and> origin \<noteq> [] \<and>
              map_of (player_entry_warps gm) origin \<noteq> None)"
    and "player_spawnpoint gm = None" and "player_entry_warps gm = (k, p) # rest"
  shows "\<exists>s'. load_map c s (Some g) from_map = Inr s'
            \<and> player s' = teleport c p (player s) \<and> current_map s' = Some g"
proof -
  from assms(2) have "fst (entry_warp_for gm (Some g) (current_map s) from_map) = None"
    by (rule entry_warp_none)
  with assms(3,4) have "fst (default_spawn gm (Some g)
      (fst (entry_warp_for gm (Some g) (current_map s) from_map))) = Inr p"
    by (simp add: default_spawn_first [of gm k p rest])
  from load_map_player [OF assms(1) this] show ?thesis .
qed

text \<open>
  C2: for a target that is not registered, \<open>switch_to_map\<close> warns and reloads the current
  map with the target as origin. When it returns the current map is unchanged and the
  warning comes first. Whenever the current map is registered it lands the player, read
  from the map's data, on the current map's entry warp for the missing target if the
  target is a non-empty identifier with such a warp, else on the current map's default
  spawnpoint, else on its first entry warp. For a registered target it loads the target
  with the current map as origin: the target becomes the current map and the player
  lands on the target's entry warp for the map left, else on the target's default
  spawnpoint, else on its first entry warp.
\<close>

theorem switch_to_map_fallback:
  "(tmx_maps s m = None \<longrightarrow>
      switch_to_map c s m = load_map c (emit [Warn (Map_not_found m)] s) (current_map s) (Some m)
      \<and> (\<forall>s'. switch_to_map c s m = Inr s' \<longrightarrow>
             current_map s' = current_map s
             \<and> (\<exists>es. trace s' = trace s @ Warn (Map_not_found m) # es))
      \<and> (\<forall>cm gm. current_map s = Some cm \<and> tmx_maps s cm = Some gm \<longrightarrow>
             (\<forall>p. m \<noteq> [] \<and> map_of (player_entry_warps gm) m = Some p \<longrightarrow>
                (\<exists>s'. switch_to_map c s m = Inr s' \<and> current_map s' = Some cm
                     \<and> player s' = teleport c p (player s)))
           \<and> (\<forall>p. (m = [] \<or> map_of (player_entry_warps gm) m = None)
                    \<and> player_spawnpoint gm = Some p \<longrightarrow>
                (\<exists>s'. switch_to_map c s m = Inr s' \<and> current_map s' = Some cm
                     \<and> player s' = teleport c p (player s)))
           \<and> (\<forall>k p rest. (m = [] \<or> map_of (player_entry_warps gm) m = None)
                    \<and> player_spawnpoint gm = None \<and> player_entry_warps gm = (k, p) # rest \<longrightarrow>
                (\<exists>s'. switch_to_map c s m = Inr s' \<and> current_map s' = Some cm
                     \<and> player s' = teleport c p (player s)))))
   \<and> (\<forall>gm. tmx_maps s m = Some gm \<longrightarrow>
         switch_to_map c s m = load_map c s (Some m) (current_map s)
         \<and> (\<forall>cm p. current_map s = Some cm \<and> cm \<noteq> []
                  \<and> map_of (player_entry_warps gm) cm = Some p \<longrightarrow>
               (\<exists>s'. switch_to_map c s m = Inr s' \<and> current_map s' = Some m
                    \<and> player s' = teleport c p (player s)))
         \<and> (\<forall>p. \<not> (\<exists>cm. current_map s = Some cm \<and> cm \<noteq> []
                          \<and> map_of (player_entry_warps gm) cm \<noteq> None)
                  \<and> player_spawnpoint gm = Some p \<longrightarrow>
               (\<exists>s'. switch_to_map c s m = Inr s' \<and> current_map s' = Some m
                    \<and> player s' = teleport c p (player s)))
         \<and> (\<forall>k p rest. \<not> (\<exists>cm. current_map s = Some cm \<and> cm \<noteq> []
                          \<and> map_of (player_entry_warps gm) cm \<noteq> None)
                  \<and> player_spawnpoint gm = None \<and> player_entry_warps gm = (k, p) # rest \<longrightarrow>
               (\<exists>s'. switch_to_map c s m = Inr s' \<and> current_map s' = Some m
                    \<and> player s' = teleport c p (player s))))"
proof (intro conjI impI allI)
  assume "tmx_maps s m = None"
  then show "switch_to_map c s m
      = load_map c (emit [Warn (Map_not_found m)] s) (current_map s) (Some m)"
    by (rule switch_to_map_unknown)
next
  fix s'
  assume u: "tmx_maps s m = None" and r: "switch_to_map c s m = Inr s'"
  from r have l: "load_map c (emit [Warn (Map_not_found m)] s) (current_map s) (Some m) = Inr s'"
    by (simp add: switch_to_map_unknown [OF u])
  from load_map_current_map [OF l] show "current_map s' = current_map s" .
  from load_map_trace [OF l] show "\<exists>es. trace s' = trace s @ Warn (Map_not_found m) # es"
    by auto
next
  fix cm gm p
  assume u: "tmx_maps s m = None"
    and h: "current_map s = Some cm \<and> tmx_maps s cm = Some gm"
    and w: "m \<noteq> [] \<and> map_of (player_entry_warps gm) m = Some p"
  let ?s0 = "emit [Warn (Map_not_found m)] s"
  from h have reg: "tmx_maps ?s0 cm = Some gm" by simp
  from w have 1: "m \<noteq> []" and 2: "map_of (player_entry_warps gm) m = Some p" by simp_all
  from load_map_at_entry_warp [OF reg 1 2, of c] h
  show "\<exists>s'. switch_to_map c s m = Inr s' \<and> current_map s' = Some cm
            \<and> player s' = teleport c p (player s)"
    by (auto simp add: switch_to_map_unknown [OF u])
next
  fix cm gm p
  assume u: "tmx_maps s m = None"
    and h: "current_map s = Some cm \<and> tmx_maps s cm = Some gm"
    and w: "(m = [] \<or> map_of (player_entry_warps gm) m = None) \<and> player_spawnpoint gm = Some p"
  let ?s0 = "emit [Warn (Map_not_found m)] s"
  from h have reg: "tmx_maps ?s0 cm = Some gm" by simp
  from w have 1: "\<not> (\<exists>origin. Some m = Some origin \<and> origin \<noteq> [] \<and>
              map_of (player_entry_warps gm) origin \<noteq> None)"
    and 2: "player_spawnpoint gm = Some p" by auto
  from load_map_at_spawnpoint [OF reg 1 2, of c] h
  show "\<exists>s'. switch_to_map c s m = Inr s' \<and> current_map s' = Some cm
            \<and> player s' = teleport c p (player s)"
    by (auto simp add: switch_to_map_unknown [OF u])
next
  fix cm gm k p rest
  assume u: "tmx_maps s m = None"
    and h: "current_map s = Some cm \<and> tmx_maps s cm = Some gm"
    and w: "(m = [] \<or> map_of (player_entry_warps gm) m = None)
            \<and> player_spawnpoint gm = None \<and> player_entry_warps gm = (k, p) # rest"
  let ?s0 = "emit [Warn (Map_not_found m)] s"
  from h have reg: "tmx_maps ?s0 cm = Some gm" by simp
  note d = w [THEN conjunct1] and 2 = w [THEN conjunct2, THEN conjunct1]
    and 3 = w [THEN conjunct2, THEN conjunct2]
  from d have 1: "\<not> (\<exists>origin. Some m = Some origin \<and> origin \<noteq> [] \<and>
              map_of (player_entry_warps gm) origin \<noteq> None)"
    by auto
  from load_map_at_first_warp [OF reg 1 2 3, of c] h
  show "\<exists>s'. switch_to_map c s m = Inr s' \<and> current_map s' = Some cm
            \<and> player s' = teleport c p (player s)"
    by (auto simp add: switch_to_map_unknown [OF u])
next
  fix gm
  assume "tmx_maps s m = Some gm"
  then show "switch_to_map c s m = load_map c s (Some m) (current_map s)"
    by (rule switch_to_map_known)
next
  fix gm cm p
  assume reg: "tmx_maps s m = Some gm"
    and w: "current_map s = Some cm \<and> cm \<noteq> [] \<and> map_of (player_entry_warps gm) cm = Some p"
  from w have 0: "current_map s = Some cm" and 1: "cm \<noteq> []"
    and 2: "map_of (player_entry_warps gm) cm = Some p" by simp_all
  from load_map_at_entry_warp [OF reg 1 2, of c]
  show "\<exists>s'. switch_to_map c s m = Inr s' \<and> current_map s' = Some m
            \<and> player s' = teleport c p (player s)"
    by (auto simp add: switch_to_map_known [OF reg] 0)
next
  fix gm p
  assume reg: "tmx_maps s m = Some gm"
    and w: "\<not> (\<exists>cm. current_map s = Some cm \<and> cm \<noteq> []
                  \<and> map_of (player_entry_warps gm) cm \<noteq> None)
            \<and> player_spawnpoint gm = Some p"
  then have 1: "\<not> (\<exists>origin. current_map s = Some origin \<and> origin \<noteq> [] \<and>
              map_of (player_entry_warps gm) origin \<noteq> None)"
    and 2: "player_spawnpoint gm = Some p" by simp_all
  from load_map_at_spawnpoint [OF reg 1 2, of c]
  show "\<exists>s'. switch_to_map c s m = Inr s' \<and> current_map s' = Some m
            \<and> player s' = teleport c p (player s)"
    by (auto simp add: switch_to_map_known [OF reg])
next
  fix gm k p rest
  assume reg: "tmx_maps s m = Some gm"
    and w: "\<not> (\<exists>cm. current_map s = Some cm \<and> cm \<noteq> []
                  \<and> map_of (player_entry_warps gm) cm \<noteq> None)
            \<and> player_spawnpoint gm = None \<and> player_entry_warps gm = (k, p) # rest"
  note 1 = w [THEN conjunct1] and 2 = w [THEN conjunct2, THEN conjunct1]
    and 3 = w [THEN conjunct2, THEN conjunct2]
  from load_map_at_first_warp [OF reg 1 2 3, of c]
  show "\<exists>s'. switch_to_map c s m = Inr s' \<and> current_map s' = Some m
            \<and> player s' = teleport c p (player s)"
    by (auto simp add: switch_to_map_known [OF reg])
qed

theorem switch_to_map_fallback_witness:
  "tmx_maps ex_level ''town'' = None
   \<and> current_map ex_level = Some ''farm''
   \<and> player_spawnpoint ex_farm = Some (1, 2)
   \<and> map_of (player_entry_warps ex_farm) ''town'' = Some (7, 8)
   \<and> (\<exists>s'. switch_to_map ex_collab ex_level ''town'' = Inr s'
          \<and> current_map s' = Some ''farm''
          \<and> player s' = teleport ex_collab (7, 8) (player ex_level))
   \<and> tmx_maps ex_level ''forest'' = Some ex_forest
   \<and> map_of (player_entry_warps ex_forest) ''farm'' = Some (3, 4)
   \<and> (\<exists>s'. switch_to_map ex_collab ex_level ''forest'' = Inr s'
          \<and> current_map s' = Some ''forest''
          \<and> player s' = teleport ex_collab (3, 4) (player ex_level))"
proof -
  have u: "tmx_maps ex_level ''town'' = None"
    by (simp add: ex_level_def)
  have k: "tmx_maps ex_level ''forest'' = Some ex_forest"
    by (simp add: ex_level_def)
  have cur: "current_map ex_level = Some ''farm''"
    by (simp add: ex_level_def)
  have reg: "tmx_maps ex_level ''farm'' = Some ex_farm"
    by (simp add: ex_level_def)
  have sp: "player_spawnpoint ex_farm = Some (1, 2)"
    by (simp add: ex_farm_def)
  have wt: "map_of (player_entry_warps ex_farm) ''town'' = Some (7, 8)"
    by (simp add: ex_farm_def)
  have wf: "map_of (player_entry_warps ex_forest) ''farm'' = Some (3, 4)"
    by (simp add: ex_forest_def)
  have ht: "''town'' \<noteq> [] \<and> map_of (player_entry_warps ex_farm) ''town'' = Some (7, 8)"
    using wt by simp
  have hf: "current_map ex_level = Some ''farm'' \<and> ''farm'' \<noteq> []
            \<and> map_of (player_entry_warps ex_forest) ''farm'' = Some (3, 4)"
    using cur wf by simp
  note t = switch_to_map_fallback [of ex_level "''town''" ex_collab]
  note t2 = switch_to_map_fallback [of ex_level "''forest''" ex_collab]
  note a = t [THEN conjunct1, rule_format, OF u, THEN conjunct2, THEN conjunct2, rule_format,
              OF conjI [OF cur reg], THEN conjunct1, rule_format, OF ht]
  note b = t2 [THEN conjunct2, rule_format, OF k, THEN conjunct2, THEN conjunct1, rule_format,
               OF hf]
  from u cur sp wt a k wf b show ?thesis by (intro conjI)
qed

section \<open>Exit warps\<close>

lemma scan_exit_warps_find:
  "scan_exit_warps ws s =
     (case find (\<lambda>w. colliderect (hitbox_rect (player s)) (w_rect w)) ws of
        None \<Rightarrow> s
      | Some w \<Rightarrow>
          start_map_transition
            (s\<lparr>map_transition := (map_transition s)\<lparr>reset := Switch_to_map (w_name w)\<rparr>\<rparr>))"
  by (induction ws) simp_all

lemma activate_idle: "\<not> active t \<Longrightarrow> activate t = t\<lparr>active := True\<rparr>"
  by (simp add: activate_def)

text \<open>
  C3, amended: the exit warps are scanned only while the map transition is not active.
  On the first warp, in the group's order, that the player's hitbox overlaps, the
  transition's \<open>reset\<close> callback becomes the switch to that warp's target, the
  transition is activated, the player's blocked flag is set and the player's direction
  is set to the zero vector; nothing else changes and no later warp is looked at. With no
  overlap, or with the transition active, nothing changes.
\<close>

theorem check_map_exit_effect:
  "(active (map_transition s) \<longrightarrow> check_map_exit s = s)
   \<and> (\<not> active (map_transition s) \<and>
        find (\<lambda>w. colliderect (hitbox_rect (player s)) (w_rect w)) (player_exit_warps s) = None
        \<longrightarrow> check_map_exit s = s)
   \<and> (\<forall>w. \<not> active (map_transition s) \<and>
        find (\<lambda>w. colliderect (hitbox_rect (player s)) (w_rect w)) (player_exit_warps s) = Some w
        \<longrightarrow> check_map_exit s =
              s\<lparr>map_transition := (map_transition s)\<lparr>reset := Switch_to_map (w_name w),
                                                     active := True\<rparr>,
                player := (player s)\<lparr>blocked := True, direction := (0, 0)\<rparr>\<rparr>)"
  by (simp add: check_map_exit_def scan_exit_warps_find start_map_transition_def
        start_transition_def activate_idle)

lemma ex_find_warp:
  "find (\<lambda>w. colliderect (hitbox_rect (player ex_level)) (w_rect w)) (player_exit_warps ex_level)
     = Some \<lparr>w_rect = ex_rect 5 0, w_name = ''forest''\<rparr>"
  by (simp add: ex_level_def ex_farm_def ex_player_def ex_rect_def colliderect_def)

theorem check_map_exit_effect_witness:
  "\<not> active (map_transition ex_level)
   \<and> check_map_exit ex_level =
       ex_level\<lparr>map_transition := (map_transition ex_level)\<lparr>reset := Switch_to_map ''forest'',
                                                              active := True\<rparr>,
                player := (player ex_level)\<lparr>blocked := True, direction := (0, 0)\<rparr>\<rparr>"
proof -
  have i: "\<not> active (map_transition ex_level)"
    by (simp add: ex_level_def ex_transition_def)
  note t = check_map_exit_effect [of ex_level, THEN conjunct2, THEN conjunct2, rule_format,
              OF conjI [OF i ex_find_warp]]
  from i t show ?thesis by simp
qed

text \<open>
  C3 as stated fails: a player moving right who overlaps the exit warp to the forest also
  has the direction set to zero, a fourth change next to the callback, the blocked flag
  and the activation.
\<close>

theorem check_map_exit_direction_counterexample:
  "\<not> active (map_transition ex_level)
   \<and> colliderect (hitbox_rect (player ex_level)) (ex_rect 5 0)
   \<and> direction (player ex_level) = (1, 0)
   \<and> direction (player (check_map_exit ex_level)) = (0, 0)
   \<and> check_map_exit ex_level \<noteq>
       ex_level\<lparr>map_transition := (map_transition ex_level)\<lparr>reset := Switch_to_map ''forest'',
                                                              active := True\<rparr>,
                player := (player ex_level)\<lparr>blocked := True\<rparr>\<rparr>"
proof -
  have i: "\<not> active (map_transition ex_level)"
    by (simp add: ex_level_def ex_transition_def)
  have c: "colliderect (hitbox_rect (player ex_level)) (ex_rect 5 0)"
    by (simp add: ex_level_def ex_player_def ex_rect_def colliderect_def)
  have d: "direction (player ex_level) = (1, 0)"
    by (simp add: ex_level_def ex_player_def)
  have e: "check_map_exit ex_level =
       ex_level\<lparr>map_transition := (map_transition ex_level)\<lparr>reset := Switch_to_map ''forest'',
                                                              active := True\<rparr>,
                player := (player ex_level)\<lparr>blocked := True, direction := (0, 0)\<rparr>\<rparr>"
    using i ex_find_warp
    by (simp add: check_map_exit_def scan_exit_warps_find start_map_transition_def
          start_transition_def activate_idle)
  have f: "direction (player (check_map_exit ex_level)) = (0, 0)"
    unfolding e by simp
  have g: "direction (player (ex_level\<lparr>map_transition := (map_transition ex_level)\<lparr>reset := Switch_to_map ''forest'',
                                                              active := True\<rparr>,
                player := (player ex_level)\<lparr>blocked := True\<rparr>\<rparr>)) = (1, 0)"
    by (simp add: d)
  from f g have "check_map_exit ex_level \<noteq>
       ex_level\<lparr>map_transition := (map_transition ex_level)\<lparr>reset := Switch_to_map ''forest'',
                                                              active := True\<rparr>,
                player := (player ex_level)\<lparr>blocked := True\<rparr>\<rparr>"
    by (metis Pair_inject zero_neq_one)
  with i c d f show ?thesis by (intro conjI)
qed


section \<open>Interaction\<close>

lemma map_nth_spritecollide: "map ((!) xs) (spritecollide P xs) = filter P xs"
proof -
  have "map ((!) xs) (filter (P \<circ> (!) xs) [0..<length xs]) = filter P (map ((!) xs) [0..<length xs])"
    by (simp only: filter_map)
  then show ?thesis
    by (simp add: spritecollide_def map_nth comp_def)
qed

lemma find_None_filter: "find P xs = None \<Longrightarrow> filter P xs = []"
  by (induction xs) (auto split: if_splits)

lemma find_Some_filter: "find P xs = Some x \<Longrightarrow> \<exists>r. filter P xs = x # r"
  by (induction xs) (auto split: if_splits)

lemma spritecollide_none: "find P xs = None \<Longrightarrow> spritecollide P xs = []"
proof -
  assume "find P xs = None"
  then have "filter P xs = []" by (rule find_None_filter)
  then have "map ((!) xs) (spritecollide P xs) = []" by (simp add: map_nth_spritecollide)
  then show ?thesis by simp
qed

lemma spritecollide_first:
  assumes "find P xs = Some x"
  shows "spritecollide P xs \<noteq> [] \<and> xs ! hd (spritecollide P xs) = x"
proof -
  from find_Some_filter [OF assms] obtain r where f: "filter P xs = x # r" by blast
  then have m: "map ((!) xs) (spritecollide P xs) = x # r" by (simp add: map_nth_spritecollide)
  then have ne: "spritecollide P xs \<noteq> []" by auto
  from m have "hd (map ((!) xs) (spritecollide P xs)) = x" by simp
  with ne show ?thesis by (simp add: hd_map)
qed

text \<open>
  C10: \<open>interact\<close> looks at the first interaction sprite, in the group's order, that the
  player's rect overlaps, and at no other. If it is named Bed the day transition is
  activated and the player blocked; if it is named Trader the screen switches to the
  shop; with any other name, and with no overlap at all, nothing changes.
\<close>

theorem interact_first_only:
  "(find (\<lambda>spr. colliderect (c_rect (player s)) (i_rect spr)) (interaction_sprites s) = None
      \<longrightarrow> interact s = s)
   \<and> (\<forall>x. find (\<lambda>spr. colliderect (c_rect (player s)) (i_rect spr)) (interaction_sprites s) = Some x
      \<longrightarrow> (i_name x = ''Bed'' \<longrightarrow>
             interact s = s\<lparr>day_transition := activate (day_transition s),
                            player := (player s)\<lparr>blocked := True, direction := (0, 0)\<rparr>\<rparr>)
        \<and> (i_name x = ''Trader'' \<longrightarrow> interact s = s\<lparr>trace := trace s @ [Switch_screen SHOP]\<rparr>)
        \<and> (i_name x \<noteq> ''Bed'' \<and> i_name x \<noteq> ''Trader'' \<longrightarrow> interact s = s))"
proof (intro conjI impI allI)
  assume "find (\<lambda>spr. colliderect (c_rect (player s)) (i_rect spr)) (interaction_sprites s) = None"
  then show "interact s = s"
    by (simp add: interact_def spritecollide_none)
next
  fix x
  assume f: "find (\<lambda>spr. colliderect (c_rect (player s)) (i_rect spr)) (interaction_sprites s) = Some x"
    and n: "i_name x = ''Bed''"
  from spritecollide_first [OF f] n
  show "interact s = s\<lparr>day_transition := activate (day_transition s),
                       player := (player s)\<lparr>blocked := True, direction := (0, 0)\<rparr>\<rparr>"
    by (simp add: interact_def Let_def start_day_transition_def start_transition_def)
next
  fix x
  assume f: "find (\<lambda>spr. colliderect (c_rect (player s)) (i_rect spr)) (interaction_sprites s) = Some x"
    and n: "i_name x = ''Trader''"
  from spritecollide_first [OF f] n
  show "interact s = s\<lparr>trace := trace s @ [Switch_screen SHOP]\<rparr>"
    by (simp add: interact_def Let_def emit_def)
next
  fix x
  assume f: "find (\<lambda>spr. colliderect (c_rect (player s)) (i_rect spr)) (interaction_sprites s) = Some x"
    and n: "i_name x \<noteq> ''Bed'' \<and> i_name x \<noteq> ''Trader''"
  from spritecollide_first [OF f] n
  show "interact s = s"
    by (simp add: interact_def Let_def)
qed

lemma ex_find_interaction:
  "find (\<lambda>spr. colliderect (c_rect (player ex_level)) (i_rect spr)) (interaction_sprites ex_level)
     = Some \<lparr>i_rect = ex_rect 5 5, i_name = ''Bed''\<rparr>"
  by (simp add: ex_level_def ex_farm_def ex_player_def ex_rect_def colliderect_def)

theorem interact_first_only_witness:
  "colliderect (c_rect (player ex_level)) (ex_rect 5 5)
   \<and> colliderect (c_rect (player ex_level)) (ex_rect 6 6)
   \<and> interaction_sprites ex_level = [\<lparr>i_rect = ex_rect 5 5, i_name = ''Bed''\<rparr>,
                                      \<lparr>i_rect = ex_rect 6 6, i_name = ''Trader''\<rparr>]
   \<and> interact ex_level =
       ex_level\<lparr>day_transition := activate (day_transition ex_level),
                player := (player ex_level)\<lparr>blocked := True, direction := (0, 0)\<rparr>\<rparr>"
proof -
  have a: "colliderect (c_rect (player ex_level)) (ex_rect 5 5)"
    by (simp add: ex_level_def ex_player_def ex_rect_def colliderect_def)
  have b: "colliderect (c_rect (player ex_level)) (ex_rect 6 6)"
    by (simp add: ex_level_def ex_player_def ex_rect_def colliderect_def)
  have c: "interaction_sprites ex_level = [\<lparr>i_rect = ex_rect 5 5, i_name = ''Bed''\<rparr>,
                                      \<lparr>i_rect = ex_rect 6 6, i_name = ''Trader''\<rparr>]"
    by (simp add: ex_level_def ex_farm_def)
  have n: "i_name \<lparr>i_rect = ex_rect 5 5, i_name = ''Bed''\<rparr> = ''Bed''" by simp
  note t = interact_first_only [of ex_level, THEN conjunct2, rule_format, OF ex_find_interaction,
             THEN conjunct1, rule_format, OF n]
  from a b c t show ?thesis by (intro conjI)
qed


section \<open>Day reset\<close>

text \<open>
  C5: one run of \<open>Level.reset\<close> adds exactly 1 to the day counter, advances the soil layer
  one day and hands it the new rain flag, sets the rain flag exactly when the drawn
  integer is above 7 (3 of the 11 values of 0..10), empties the fruit of every tree and
  grows new fruit on each tree that is alive, and sets the sky clock to 06:00.
\<close>

theorem reset_day_effect:
  "current_day (reset_day c r s) = current_day s + 1
   \<and> soil_layer (reset_day c r s) = soil_set_raining c (7 < r) (soil_update c (soil_layer s))
   \<and> (raining (reset_day c r s) \<longleftrightarrow> 7 < r)
   \<and> card {r' \<in> {0..10}. raining (reset_day c r' s)} = 3
   \<and> card {0..10::int} = 11
   \<and> length (tree_sprites (reset_day c r s)) = length (tree_sprites s)
   \<and> (\<forall>i < length (tree_sprites s).
         tree_sprites (reset_day c r s) ! i =
           (if tree_alive (tree_sprites s ! i)
            then tree_create_fruit c ((tree_sprites s ! i)\<lparr>fruit_sprites := []\<rparr>)
            else (tree_sprites s ! i)\<lparr>fruit_sprites := []\<rparr>))
   \<and> sky_time (reset_day c r s) = (6, 0)
   \<and> sky_start_color (reset_day c r s) = [255, 255, 255]"
proof -
  have "{r' \<in> {0..10}. raining (reset_day c r' s)} = {8..10}"
    by (auto simp: reset_day_def)
  then have "card {r' \<in> {0..10}. raining (reset_day c r' s)} = 3"
    by simp
  then show ?thesis
    by (simp add: reset_day_def reset_tree_def)
qed

theorem reset_day_effect_witness:
  "current_day (reset_day ex_collab 9 ex_level) = 1
   \<and> raining (reset_day ex_collab 9 ex_level)
   \<and> tree_alive (tree_sprites ex_level ! 0)
   \<and> fruit_sprites (tree_sprites ex_level ! 0) = [(15, 1)]
   \<and> fruit_sprites (tree_sprites (reset_day ex_collab 9 ex_level) ! 0) = [(0, 0), (1, 1)]
   \<and> sky_time (reset_day ex_collab 9 ex_level) = (6, 0)"
proof -
  have l: "0 < length (tree_sprites ex_level)"
    by (simp add: ex_level_def ex_farm_def)
  have a: "tree_alive (tree_sprites ex_level ! 0)"
    by (simp add: ex_level_def ex_farm_def ex_tree_def)
  have b: "fruit_sprites (tree_sprites ex_level ! 0) = [(15, 1)]"
    by (simp add: ex_level_def ex_farm_def ex_tree_def)
  have d: "current_day ex_level = 0"
    by (simp add: ex_level_def)
  have f: "tree_create_fruit ex_collab = (\<lambda>t. t\<lparr>fruit_sprites := [(0, 0), (1, 1)]\<rparr>)"
    by (simp add: ex_collab_def)
  note t = reset_day_effect [of ex_collab 9 ex_level]
  from t [THEN conjunct1] d have 1: "current_day (reset_day ex_collab 9 ex_level) = 1" by simp
  from t [THEN conjunct2, THEN conjunct2, THEN conjunct1]
  have 2: "raining (reset_day ex_collab 9 ex_level)" by simp
  from t have "\<forall>i < length (tree_sprites ex_level).
         tree_sprites (reset_day ex_collab 9 ex_level) ! i =
           (if tree_alive (tree_sprites ex_level ! i)
            then tree_create_fruit ex_collab ((tree_sprites ex_level ! i)\<lparr>fruit_sprites := []\<rparr>)
            else (tree_sprites ex_level ! i)\<lparr>fruit_sprites := []\<rparr>)" by blast
  from this [rule_format, OF l] a
  have 3: "fruit_sprites (tree_sprites (reset_day ex_collab 9 ex_level) ! 0) = [(0, 0), (1, 1)]"
    by (simp add: f)
  from t have 4: "sky_time (reset_day ex_collab 9 ex_level) = (6, 0)" by blast
  from 1 2 a b 3 4 show ?thesis by (intro conjI)
qed

section \<open>Events\<close>

lemma handle_event_keydown:
  "fst (handle_event (KEYDOWN k) s) \<longleftrightarrow>
     k = K_ESCAPE \<or> k = debug_show_hitboxes (keys (player s))
     \<or> k = show_dialog (keys (player s)) \<or> k = advance_dialog (keys (player s))"
  by (simp add: handle_event_def)

text \<open>
  C8: the start-quake signal is acted on, the quake starts with the event's duration, yet
  \<open>handle_event\<close> returns \<open>False\<close>, while each key press it acts on returns \<open>True\<close>.
\<close>

theorem handle_event_start_quake:
  "handle_event (START_QUAKE 500) ex_level = (False, ex_level\<lparr>trace := [Quaker_start 500]\<rparr>)"
  by (simp add: handle_event_def emit_def ex_level_def)

section \<open>Tool dispatch\<close>

lemma axe_step_eq:
  "axe_step e s i =
     s\<lparr>tree_sprites := (tree_sprites s)[i := hit (tree_sprites s ! i)],
       trace := trace s @ replicate (if is_player e then 1 else 0) (Play_sound ''axe'')\<rparr>"
  by (simp add: axe_step_def play_playeronly_sound_def emit_def)

lemma hit_marks_step:
  assumes "i < length ts" "i \<notin> set js"
  shows "map (\<lambda>j. if j \<in> set js then hit (ts[i := hit (ts ! i)] ! j) else ts[i := hit (ts ! i)] ! j)
            [0..<length ts]
       = map (\<lambda>j. if j \<in> set (i # js) then hit (ts ! j) else ts ! j) [0..<length ts]"
  using assms by (auto simp: nth_list_update)

lemma foldl_axe_step:
  "distinct js \<Longrightarrow> \<forall>j \<in> set js. j < length (tree_sprites s) \<Longrightarrow>
   foldl (axe_step e) s js =
     s\<lparr>tree_sprites := map (\<lambda>j. if j \<in> set js then hit (tree_sprites s ! j) else tree_sprites s ! j)
                          [0..<length (tree_sprites s)],
       trace := trace s @ replicate (if is_player e then length js else 0) (Play_sound ''axe'')\<rparr>"
proof (induction js arbitrary: s)
  case Nil
  have "map (\<lambda>j. tree_sprites s ! j) [0..<length (tree_sprites s)] = tree_sprites s"
    by (rule map_nth)
  then show ?case by simp
next
  case (Cons i js)
  let ?ts = "tree_sprites s"
  let ?s1 = "axe_step e s i"
  have ts1: "tree_sprites ?s1 = ?ts[i := hit (?ts ! i)]"
    by (simp add: axe_step_eq)
  have tr1: "trace ?s1 = trace s @ replicate (if is_player e then 1 else 0) (Play_sound ''axe'')"
    by (simp add: axe_step_eq)
  from Cons.prems have d: "distinct js" and ni: "i \<notin> set js" and li: "i < length ?ts"
    and lj: "\<forall>j \<in> set js. j < length (tree_sprites ?s1)"
    by (simp_all add: ts1)
  have "foldl (axe_step e) s (i # js) = foldl (axe_step e) ?s1 js" by simp
  also have "\<dots> = ?s1\<lparr>tree_sprites :=
        map (\<lambda>j. if j \<in> set js then hit (tree_sprites ?s1 ! j) else tree_sprites ?s1 ! j)
          [0..<length (tree_sprites ?s1)],
       trace := trace ?s1 @ replicate (if is_player e then length js else 0) (Play_sound ''axe'')\<rparr>"
    by (rule Cons.IH [OF d lj])
  also have "\<dots> = s\<lparr>tree_sprites :=
        map (\<lambda>j. if j \<in> set (i # js) then hit (?ts ! j) else ?ts ! j) [0..<length ?ts],
       trace := trace s @ replicate (if is_player e then length (i # js) else 0) (Play_sound ''axe'')\<rparr>"
    unfolding ts1 tr1 length_list_update hit_marks_step [OF li ni]
    by (simp add: axe_step_eq replicate_app_Cons_same)
  finally show ?case .
qed

lemma spritecollide_set: "i \<in> set (spritecollide P xs) \<longleftrightarrow> i < length xs \<and> P (xs ! i)"
  by (auto simp: spritecollide_def)

lemma spritecollide_distinct: "distinct (spritecollide P xs)"
  by (simp add: spritecollide_def)

lemma spritecollide_length: "length (spritecollide P xs) = length (filter P xs)"
  using map_nth_spritecollide [of xs P, THEN arg_cong, of length] by simp

lemma collided_marks:
  "map (\<lambda>j. if j \<in> set (spritecollide P ts) then f (ts ! j) else ts ! j) [0..<length ts]
     = map (\<lambda>t. if P t then f t else t) ts"
  by (rule nth_equalityI) (simp_all add: spritecollide_set)

lemma apply_tool_axe:
  "apply_tool c AXE p e s =
     s\<lparr>tree_sprites := map (\<lambda>t. if axe_collides e t then hit t else t) (tree_sprites s),
       trace := trace s @ replicate (if is_player e
                    then length (filter (axe_collides e) (tree_sprites s)) else 0)
                  (Play_sound ''axe'')\<rparr>"
proof -
  have "\<forall>j \<in> set (spritecollide (axe_collides e) (tree_sprites s)). j < length (tree_sprites s)"
    by (simp add: spritecollide_set)
  from foldl_axe_step [OF spritecollide_distinct this, of e]
  show ?thesis
    by (simp add: apply_tool_def collided_marks spritecollide_length)
qed

text \<open>
  C6: with the axe, every tree whose hitbox the actor's axe hitbox collides with gets
  exactly one hit and every other tree is left as it was; the chop sound is played once
  for each hit tree when the actor is the player and not at all otherwise; nothing else
  in the level changes.
\<close>

theorem apply_tool_axe_hits:
  "length (tree_sprites (apply_tool c AXE p e s)) = length (tree_sprites s)
   \<and> (\<forall>i < length (tree_sprites s).
        tree_sprites (apply_tool c AXE p e s) ! i =
          (if colliderect (axe_hitbox e) (tree_hitbox_rect (tree_sprites s ! i))
           then (tree_sprites s ! i)\<lparr>tree_hits := tree_hits (tree_sprites s ! i) + 1\<rparr>
           else tree_sprites s ! i))
   \<and> trace (apply_tool c AXE p e s) =
        trace s @ replicate
          (if is_player e
           then length (filter (\<lambda>t. colliderect (axe_hitbox e) (tree_hitbox_rect t)) (tree_sprites s))
           else 0)
          (Play_sound ''axe'')
   \<and> apply_tool c AXE p e s =
        s\<lparr>tree_sprites := tree_sprites (apply_tool c AXE p e s),
          trace := trace (apply_tool c AXE p e s)\<rparr>"
proof -
  have a: "axe_collides e = (\<lambda>t. colliderect (axe_hitbox e) (tree_hitbox_rect t))"
    by (rule ext) (simp add: axe_collides_def)
  show ?thesis
    unfolding apply_tool_axe a by (simp add: hit_def)
qed


theorem apply_tool_axe_hits_witness:
  "colliderect (axe_hitbox ex_player) (tree_hitbox_rect (tree_sprites ex_level ! 0))
   \<and> \<not> colliderect (axe_hitbox ex_player) (tree_hitbox_rect (tree_sprites ex_level ! 1))
   \<and> tree_hits (tree_sprites (apply_tool ex_collab AXE (0, 0) ex_player ex_level) ! 0) = 1
   \<and> tree_hits (tree_sprites (apply_tool ex_collab AXE (0, 0) ex_player ex_level) ! 1) = 0
   \<and> trace (apply_tool ex_collab AXE (0, 0) ex_player ex_level) = [Play_sound ''axe'']
   \<and> trace (apply_tool ex_collab AXE (0, 0) ex_npc ex_level) = []"
proof -
  have ts: "tree_sprites ex_level = [ex_tree 15, ex_tree 40]"
    by (simp add: ex_level_def ex_farm_def)
  have c0: "colliderect (axe_hitbox ex_player) (tree_hitbox_rect (ex_tree 15))"
    by (simp add: ex_player_def ex_tree_def ex_rect_def colliderect_def)
  have c1: "\<not> colliderect (axe_hitbox ex_player) (tree_hitbox_rect (ex_tree 40))"
    by (simp add: ex_player_def ex_tree_def ex_rect_def colliderect_def)
  have n: "axe_hitbox ex_npc = axe_hitbox ex_player" "\<not> is_player ex_npc" "is_player ex_player"
    by (simp_all add: ex_npc_def ex_player_def)
  have h: "tree_hits (ex_tree 15) = 0" "tree_hits (ex_tree 40) = 0"
    by (simp_all add: ex_tree_def)
  have tr: "trace ex_level = []"
    by (simp add: ex_level_def)
  note t = apply_tool_axe_hits [of ex_collab "(0, 0)" ex_player ex_level]
  note u = apply_tool_axe_hits [of ex_collab "(0, 0)" ex_npc ex_level]
  from t have i: "\<forall>i < length (tree_sprites ex_level).
        tree_sprites (apply_tool ex_collab AXE (0, 0) ex_player ex_level) ! i =
          (if colliderect (axe_hitbox ex_player) (tree_hitbox_rect (tree_sprites ex_level ! i))
           then (tree_sprites ex_level ! i)\<lparr>tree_hits := tree_hits (tree_sprites ex_level ! i) + 1\<rparr>
           else tree_sprites ex_level ! i)"
    by (rule conjunct2 [THEN conjunct1])
  from i [rule_format, of 0] c0 h
  have 0: "tree_hits (tree_sprites (apply_tool ex_collab AXE (0, 0) ex_player ex_level) ! 0) = 1"
    by (simp add: ts)
  from i [rule_format, of 1] c1 h
  have 1: "tree_hits (tree_sprites (apply_tool ex_collab AXE (0, 0) ex_player ex_level) ! 1) = 0"
    by (simp add: ts)
  from t [THEN conjunct2, THEN conjunct2, THEN conjunct1] c0 c1 n
  have 2: "trace (apply_tool ex_collab AXE (0, 0) ex_player ex_level) = [Play_sound ''axe'']"
    by (simp add: ts tr)
  from u [THEN conjunct2, THEN conjunct2, THEN conjunct1] n
  have 3: "trace (apply_tool ex_collab AXE (0, 0) ex_npc ex_level) = []"
    by (simp add: tr)
  from c0 c1 0 1 2 3 show ?thesis by (simp add: ts)
qed

lemma apply_tool_hoe:
  "apply_tool c HOE p e s =
     s\<lparr>soil_layer := snd (soil_hoe c p (soil_layer s)),
       trace := trace s @ (if is_player e \<and> fst (soil_hoe c p (soil_layer s))
                           then [Play_sound ''hoe''] else [])\<rparr>"
  by (auto simp add: apply_tool_def Let_def play_playeronly_sound_def emit_def split: prod.splits)

lemma apply_tool_water:
  "apply_tool c WATERING_CAN p e s =
     s\<lparr>soil_layer := snd (soil_water c p (soil_layer s)),
       trace := trace s @ (if is_player e then [Play_sound ''water''] else [])\<rparr>"
  by (auto simp add: apply_tool_def Let_def play_playeronly_sound_def emit_def split: prod.splits)

lemma apply_tool_seed:
  "apply_tool c (SEED k) p e s =
     s\<lparr>soil_layer := snd (soil_plant c p (SEED k) e (soil_layer s)),
       trace := trace s @ (if is_player e
                           then [Play_sound (if fst (soil_plant c p (SEED k) e (soil_layer s))
                                             then ''plant'' else ''cant_plant'')]
                           else [])\<rparr>"
  by (auto simp add: apply_tool_def Let_def play_playeronly_sound_def emit_def split: prod.splits)

text \<open>
  C7, amended: each dispatch runs one branch, and every sound is played only for an actor
  that is the player. For the player the hoe sound is played exactly when the soil
  layer's hoe reports success, the water sound whatever the watering reports, and for
  any other tool the plant sound when planting succeeds and the can't-plant sound when it
  fails. For any other actor no branch plays a sound.
\<close>

theorem apply_tool_sound_gating:
  "apply_tool c HOE p e s =
     s\<lparr>soil_layer := snd (soil_hoe c p (soil_layer s)),
       trace := trace s @ (if is_player e \<and> fst (soil_hoe c p (soil_layer s))
                           then [Play_sound ''hoe''] else [])\<rparr>
   \<and> apply_tool c WATERING_CAN p e s =
     s\<lparr>soil_layer := snd (soil_water c p (soil_layer s)),
       trace := trace s @ (if is_player e then [Play_sound ''water''] else [])\<rparr>
   \<and> apply_tool c (SEED k) p e s =
     s\<lparr>soil_layer := snd (soil_plant c p (SEED k) e (soil_layer s)),
       trace := trace s @ (if is_player e
                           then [Play_sound (if fst (soil_plant c p (SEED k) e (soil_layer s))
                                             then ''plant'' else ''cant_plant'')]
                           else [])\<rparr>"
  by (simp only: apply_tool_hoe apply_tool_water apply_tool_seed simp_thms)

theorem apply_tool_sound_gating_witness:
  "is_player ex_player
   \<and> \<not> fst (soil_water ex_collab (1, 0) (soil_layer ex_level))
   \<and> trace (apply_tool ex_collab WATERING_CAN (1, 0) ex_player ex_level) = [Play_sound ''water'']
   \<and> \<not> fst (soil_hoe ex_collab (1, 0) (soil_layer ex_level))
   \<and> trace (apply_tool ex_collab HOE (1, 0) ex_player ex_level) = []
   \<and> trace (apply_tool ex_collab HOE (2, 0) ex_player ex_level) = [Play_sound ''hoe'']
   \<and> trace (apply_tool ex_collab (SEED 0) (1, 0) ex_player ex_level) = [Play_sound ''cant_plant'']
   \<and> trace (apply_tool ex_collab (SEED 0) (2, 0) ex_player ex_level) = [Play_sound ''plant'']"
proof -
  have p: "is_player ex_player" by (simp add: ex_player_def)
  have tr: "trace ex_level = []" by (simp add: ex_level_def)
  have w: "\<not> fst (soil_water ex_collab (1, 0) (soil_layer ex_level))"
    by (simp add: ex_collab_def)
  have h1: "\<not> fst (soil_hoe ex_collab (1, 0) (soil_layer ex_level))"
    and h2: "fst (soil_hoe ex_collab (2, 0) (soil_layer ex_level))"
    and s1: "\<not> fst (soil_plant ex_collab (1, 0) (SEED 0) ex_player (soil_layer ex_level))"
    and s2: "fst (soil_plant ex_collab (2, 0) (SEED 0) ex_player (soil_layer ex_level))"
    by (simp_all add: ex_collab_def)
  note a = apply_tool_sound_gating [of ex_collab "(1, 0)" ex_player ex_level 0]
  note b = apply_tool_sound_gating [of ex_collab "(2, 0)" ex_player ex_level 0]
  from a [THEN conjunct2, THEN conjunct1] p tr
  have 1: "trace (apply_tool ex_collab WATERING_CAN (1, 0) ex_player ex_level) = [Play_sound ''water'']"
    by simp
  from a [THEN conjunct1] p tr h1
  have 2: "trace (apply_tool ex_collab HOE (1, 0) ex_player ex_level) = []"
    by simp
  from b [THEN conjunct1] p tr h2
  have 3: "trace (apply_tool ex_collab HOE (2, 0) ex_player ex_level) = [Play_sound ''hoe'']"
    by simp
  from a [THEN conjunct2, THEN conjunct2] p tr s1
  have 4: "trace (apply_tool ex_collab (SEED 0) (1, 0) ex_player ex_level) = [Play_sound ''cant_plant'']"
    by simp
  from b [THEN conjunct2, THEN conjunct2] p tr s2
  have 5: "trace (apply_tool ex_collab (SEED 0) (2, 0) ex_player ex_level) = [Play_sound ''plant'']"
    by simp
  from p w 1 h1 2 3 4 5 show ?thesis by (intro conjI)
qed

text \<open>
  C7 as stated fails for an actor that is not the player: watering plays no water sound,
  and planting plays neither the plant sound on success nor the can't-plant sound on
  failure.
\<close>

theorem apply_tool_npc_silent_counterexample:
  "\<not> is_player ex_npc
   \<and> trace ex_level = []
   \<and> trace (apply_tool ex_collab WATERING_CAN (2, 0) ex_npc ex_level) = []
   \<and> fst (soil_plant ex_collab (2, 0) (SEED 0) ex_npc (soil_layer ex_level))
   \<and> trace (apply_tool ex_collab (SEED 0) (2, 0) ex_npc ex_level) = []
   \<and> \<not> fst (soil_plant ex_collab (1, 0) (SEED 0) ex_npc (soil_layer ex_level))
   \<and> trace (apply_tool ex_collab (SEED 0) (1, 0) ex_npc ex_level) = []"
proof -
  have p: "\<not> is_player ex_npc" by (simp add: ex_npc_def ex_player_def)
  have tr: "trace ex_level = []" by (simp add: ex_level_def)
  have s1: "\<not> fst (soil_plant ex_collab (1, 0) (SEED 0) ex_npc (soil_layer ex_level))"
    and s2: "fst (soil_plant ex_collab (2, 0) (SEED 0) ex_npc (soil_layer ex_level))"
    by (simp_all add: ex_collab_def)
  have 1: "trace (apply_tool ex_collab WATERING_CAN (2, 0) ex_npc ex_level) = []"
    using p tr by (simp add: apply_tool_water)
  have 2: "trace (apply_tool ex_collab (SEED 0) (2, 0) ex_npc ex_level) = []"
    using p tr by (simp add: apply_tool_seed)
  have 3: "trace (apply_tool ex_collab (SEED 0) (1, 0) ex_npc ex_level) = []"
    using p tr by (simp add: apply_tool_seed)
  from p tr 1 s2 2 s1 3 show ?thesis by (intro conjI)
qed

section \<open>The frame tick\<close>

lemma no_sprites_update_simps [simp]:
  "no_sprites_update []"
  "no_sprites_update (e # es) \<longleftrightarrow> (\<forall>a dt. e \<noteq> All_sprites_update a dt) \<and> no_sprites_update es"
  "no_sprites_update (xs @ ys) \<longleftrightarrow> no_sprites_update xs \<and> no_sprites_update ys"
  "no_sprites_update (map Warn ws)"
  by (auto simp: no_sprites_update_def list_all_iff split: event.splits)

lemma check_map_exit_trace: "trace (check_map_exit s) = trace s"
  by (simp add: check_map_exit_def scan_exit_warps_find start_map_transition_def
        start_transition_def split: option.splits)

lemma update_rain_trace:
  "trace (update_rain s) = trace s @ (if raining s then [Rain_update] else [])"
  by (simp add: update_rain_def)

lemma load_map_quiet:
  "load_map c s gid fm = Inr s' \<Longrightarrow> \<exists>es. trace s' = trace s @ es \<and> no_sprites_update es"
  by (auto simp: load_map_def Let_def split: option.splits prod.splits sum.splits)

lemma switch_to_map_quiet:
  assumes "switch_to_map c s m = Inr s'"
  shows "\<exists>es. trace s' = trace s @ es \<and> no_sprites_update es"
proof (cases "tmx_maps s m")
  case None
  with assms have "load_map c (emit [Warn (Map_not_found m)] s) (current_map s) (Some m) = Inr s'"
    by (simp add: switch_to_map_def)
  from load_map_quiet [OF this] show ?thesis by auto
next
  case (Some gm)
  with assms have "load_map c s (Some m) (current_map s) = Inr s'"
    by (simp add: switch_to_map_def)
  from load_map_quiet [OF this] show ?thesis .
qed

lemma run_callback_quiet:
  assumes "run_callback c r cb s = Inr s'"
  shows "\<exists>es. trace s' = trace s @ es \<and> no_sprites_update es"
proof (cases cb)
  case Switch_to_current_map
  with assms obtain m where "switch_to_map c s m = Inr s'"
    by (auto simp: run_callback_def split: option.splits)
  then show ?thesis by (rule switch_to_map_quiet)
next
  case (Switch_to_map m)
  with assms have "switch_to_map c s m = Inr s'" by (simp add: run_callback_def)
  then show ?thesis by (rule switch_to_map_quiet)
next
  case Reset_day
  with assms have "s' = reset_day c r s" by (simp add: run_callback_def)
  then show ?thesis by (simp add: reset_day_def)
next
  case Finish_transition
  with assms have "s' = finish_transition s" by (simp add: run_callback_def)
  then show ?thesis by (simp add: finish_transition_def)
qed

lemma fire_quiet:
  "fire c r w sls s = Inr s' \<Longrightarrow> \<exists>es. trace s' = trace s @ es \<and> no_sprites_update es"
proof (induction sls arbitrary: s)
  case Nil
  then show ?case by simp
next
  case (Cons sl sls)
  let ?cb = "case sl of Reset_slot \<Rightarrow> reset (get_transition w s)
                      | Finish_slot \<Rightarrow> finish_reset (get_transition w s)"
  from Cons.prems obtain s1 where 1: "run_callback c r ?cb s = Inr s1"
    and 2: "fire c r w sls s1 = Inr s'"
    by (auto split: sum.splits)
  from run_callback_quiet [OF 1] obtain es1 where e1: "trace s1 = trace s @ es1" "no_sprites_update es1"
    by blast
  from Cons.IH [OF 2] obtain es2 where e2: "trace s' = trace s1 @ es2" "no_sprites_update es2"
    by blast
  from e1 e2 have "trace s' = trace s @ (es1 @ es2) \<and> no_sprites_update (es1 @ es2)" by simp
  then show ?case by blast
qed

lemma set_active_trace: "trace (set_active w b s) = trace s"
  by (cases w) (simp_all add: set_active_def)

lemma transition_update_trace:
  assumes "transition_update c r w st s = Inr s'"
  shows "\<exists>es. trace s' = trace s @ Transition_update w # es \<and> no_sprites_update es"
proof (cases "active (get_transition w (emit [Transition_update w] s))")
  case False
  with assms have "s' = emit [Transition_update w] s"
    by (simp add: transition_update_def Let_def)
  then show ?thesis by simp
next
  case True
  with assms obtain s1 where 1: "fire c r w (fired st) (emit [Transition_update w] s) = Inr s1"
    and 2: "s' = set_active w (stays_active st) s1"
    by (auto simp: transition_update_def Let_def split: sum.splits)
  from fire_quiet [OF 1] obtain es where "trace s1 = trace s @ Transition_update w # es"
    "no_sprites_update es" by auto
  with 2 show ?thesis by (simp add: set_active_trace)
qed

lemma update_head_trace:
  assumes "update_head c r ds ms s = Inr s4"
  shows "\<exists>es. trace s4 = trace s @ es \<and> Transition_update Day \<in> set es
            \<and> Transition_update Map_change \<in> set es \<and> no_sprites_update es"
proof -
  let ?s2 = "update_rain (check_map_exit s)"
  from assms obtain s3 where 3: "transition_update c r Day ds ?s2 = Inr s3"
    and 4: "transition_update c r Map_change ms s3 = Inr s4"
    by (auto simp: update_head_def split: sum.splits)
  have e2: "trace ?s2 = trace s @ (if raining (check_map_exit s) then [Rain_update] else [])"
    by (simp add: update_rain_trace check_map_exit_trace)
  from transition_update_trace [OF 3] obtain es3
    where e3: "trace s3 = trace ?s2 @ Transition_update Day # es3" "no_sprites_update es3"
    by blast
  from transition_update_trace [OF 4] obtain es4
    where e4: "trace s4 = trace s3 @ Transition_update Map_change # es4" "no_sprites_update es4"
    by blast
  let ?es = "(if raining (check_map_exit s) then [Rain_update] else [])
             @ Transition_update Day # es3 @ Transition_update Map_change # es4"
  from e2 e3 e4 have "trace s4 = trace s @ ?es" by simp
  moreover have "Transition_update Day \<in> set ?es" "Transition_update Map_change \<in> set ?es"
    by simp_all
  moreover from e3 e4 have "no_sprites_update ?es" by simp
  ultimately show ?thesis by blast
qed

lemma move_things_block_player:
  "player (move_things_block c dt s) = entity_update c (cutscene_active s) dt (player s)"
  by (simp add: move_things_block_def Let_def emit_def)

lemma move_things_block_trace:
  "trace (move_things_block c dt s) =
     trace s @ All_sprites_update (cutscene_active s) dt # Drops_update
       # (if cutscene_active s then [Cutscene_update dt] else [])
       @ [Quaker_update dt,
          Camera_update (cutscene_active s \<and> cutscene_step c dt),
          Zoom_update (cutscene_active s \<and> cutscene_step c dt) dt]"
  by (simp add: move_things_block_def Let_def emit_def)

lemma draw_player: "player (draw_hitboxes (draw dt m s)) = player s"
  by (simp add: draw_hitboxes_def draw_def emit_def)

lemma draw_trace:
  "trace (draw_hitboxes (draw dt m s)) =
     trace s @ Draw dt m # (if show_hitbox_active s then [Draw_hitboxes] else [])"
  by (simp add: draw_hitboxes_def draw_def emit_def)

lemma transition_update_quiet_tick:
  "fired st = [] \<Longrightarrow>
   transition_update c r w st s =
     Inr (if active (get_transition w s)
          then set_active w (stays_active st) (emit [Transition_update w] s)
          else emit [Transition_update w] s)"
  by (cases w) (simp_all add: transition_update_def Let_def get_transition_def emit_def)

lemma quiet_tick_player:
  "player (if active (get_transition w s)
          then set_active w b (emit es s) else emit es s) = player s"
  "cutscene_active (if active (get_transition w s)
          then set_active w b (emit es s) else emit es s) = cutscene_active s"
  by (cases w; simp add: set_active_def emit_def)+

lemma update_rain_player:
  "player (update_rain s) = player s" "cutscene_active (update_rain s) = cutscene_active s"
  by (simp_all add: update_rain_def emit_def)


lemma check_map_exit_overlap:
  assumes "\<not> active (map_transition s)"
    and "find (\<lambda>w. colliderect (hitbox_rect (player s)) (w_rect w)) (player_exit_warps s) = Some w"
  shows "check_map_exit s =
           s\<lparr>map_transition := (map_transition s)\<lparr>reset := Switch_to_map (w_name w),
                                                  active := True\<rparr>,
             player := (player s)\<lparr>blocked := True, direction := (0, 0)\<rparr>\<rparr>"
  using assms
  by (simp add: check_map_exit_def scan_exit_warps_find start_map_transition_def
        start_transition_def activate_idle)

lemma ex_check_map_exit:
  "check_map_exit ex_level =
       ex_level\<lparr>map_transition := (map_transition ex_level)\<lparr>reset := Switch_to_map ''forest'',
                                                              active := True\<rparr>,
                player := (player ex_level)\<lparr>blocked := True, direction := (0, 0)\<rparr>\<rparr>"
proof -
  have "\<not> active (map_transition ex_level)"
    by (simp add: ex_level_def ex_transition_def)
  from check_map_exit_overlap [OF this ex_find_warp] show ?thesis by simp
qed

lemma update_head_quiet_tick:
  assumes "\<not> active (map_transition s)"
    and "find (\<lambda>w. colliderect (hitbox_rect (player s)) (w_rect w)) (player_exit_warps s) = Some w"
    and "fired ds = []" and "fired ms = []"
  shows "\<exists>s4. update_head c r ds ms s = Inr s4
            \<and> player s4 = (player s)\<lparr>blocked := True, direction := (0, 0)\<rparr>
            \<and> cutscene_active s4 = cutscene_active s"
proof -
  from check_map_exit_overlap [OF assms(1) assms(2)]
  have p1: "player (check_map_exit s) = (player s)\<lparr>blocked := True, direction := (0, 0)\<rparr>"
    and c1: "cutscene_active (check_map_exit s) = cutscene_active s"
    by simp_all
  let ?s2 = "update_rain (check_map_exit s)"
  let ?s3 = "if active (get_transition Day ?s2)
             then set_active Day (stays_active ds) (emit [Transition_update Day] ?s2)
             else emit [Transition_update Day] ?s2"
  let ?s4 = "if active (get_transition Map_change ?s3)
             then set_active Map_change (stays_active ms) (emit [Transition_update Map_change] ?s3)
             else emit [Transition_update Map_change] ?s3"
  have h: "update_head c r ds ms s = Inr ?s4"
    unfolding update_head_def transition_update_quiet_tick [OF assms(3)]
      sum.case transition_update_quiet_tick [OF assms(4)] ..
  have "player ?s4 = player ?s3" by (rule quiet_tick_player)
  also have "\<dots> = player ?s2" by (rule quiet_tick_player)
  also have "\<dots> = (player s)\<lparr>blocked := True, direction := (0, 0)\<rparr>"
    by (simp add: update_rain_player p1)
  finally have p: "player ?s4 = (player s)\<lparr>blocked := True, direction := (0, 0)\<rparr>" .
  have "cutscene_active ?s4 = cutscene_active ?s3" by (rule quiet_tick_player)
  also have "\<dots> = cutscene_active ?s2" by (rule quiet_tick_player)
  also have "\<dots> = cutscene_active s" by (simp add: update_rain_player c1)
  finally have "cutscene_active ?s4 = cutscene_active s" .
  with h p show ?thesis by blast
qed

text \<open>
  C4, amended: in every tick that returns with \<open>move_things\<close> set, both transitions are
  updated before the sprites are, and the sprites are updated with the player as the
  transition updates left it. A map transition that the exit-warp check activates, in a
  tick in which no transition callback fires, blocks the player in that same tick: the
  sprites' update of the tick already receives the player blocked and with zero
  direction.
\<close>

theorem update_order_and_blocking:
  "(\<forall>s'. update c r ds ms dt True s = Inr s' \<longrightarrow>
      (\<exists>s4 es rest.
          update_head c r ds ms s = Inr s4
        \<and> trace s4 = trace s @ es
        \<and> Transition_update Day \<in> set es \<and> Transition_update Map_change \<in> set es
        \<and> no_sprites_update es
        \<and> player s' = entity_update c (cutscene_active s4) dt (player s4)
        \<and> trace s' = trace s4 @ All_sprites_update (cutscene_active s4) dt # rest
        \<and> Transition_update Day \<notin> set rest \<and> Transition_update Map_change \<notin> set rest))
   \<and> (\<forall>w. \<not> active (map_transition s)
          \<and> find (\<lambda>w. colliderect (hitbox_rect (player s)) (w_rect w)) (player_exit_warps s) = Some w
          \<and> fired ds = [] \<and> fired ms = [] \<longrightarrow>
      (\<exists>s4 s'. active (map_transition (check_map_exit s))
        \<and> update_head c r ds ms s = Inr s4
        \<and> blocked (player s4)
        \<and> update c r ds ms dt True s = Inr s'
        \<and> player s' = entity_update c (cutscene_active s) dt
                         ((player s)\<lparr>blocked := True, direction := (0, 0)\<rparr>)))"
proof (intro conjI allI impI)
  fix s'
  assume u: "update c r ds ms dt True s = Inr s'"
  then obtain s4 where h: "update_head c r ds ms s = Inr s4"
    and s': "s' = draw_hitboxes (draw dt True (move_things_block c dt s4))"
    by (auto simp: update_def split: sum.splits)
  from update_head_trace [OF h] obtain es where es: "trace s4 = trace s @ es"
    "Transition_update Day \<in> set es" "Transition_update Map_change \<in> set es"
    "no_sprites_update es"
    by blast
  let ?rest = "Drops_update # (if cutscene_active s4 then [Cutscene_update dt] else [])
       @ [Quaker_update dt,
          Camera_update (cutscene_active s4 \<and> cutscene_step c dt),
          Zoom_update (cutscene_active s4 \<and> cutscene_step c dt) dt]
       @ Draw dt True # (if show_hitbox_active (move_things_block c dt s4) then [Draw_hitboxes] else [])"
  have p: "player s' = entity_update c (cutscene_active s4) dt (player s4)"
    by (simp add: s' draw_player move_things_block_player)
  have tr: "trace s' = trace s4 @ All_sprites_update (cutscene_active s4) dt # ?rest"
    by (simp add: s' draw_trace move_things_block_trace)
  have r: "Transition_update Day \<notin> set ?rest" "Transition_update Map_change \<notin> set ?rest"
    by simp_all
  from h es p tr r
  show "\<exists>s4 es rest.
          update_head c r ds ms s = Inr s4
        \<and> trace s4 = trace s @ es
        \<and> Transition_update Day \<in> set es \<and> Transition_update Map_change \<in> set es
        \<and> no_sprites_update es
        \<and> player s' = entity_update c (cutscene_active s4) dt (player s4)
        \<and> trace s' = trace s4 @ All_sprites_update (cutscene_active s4) dt # rest
        \<and> Transition_update Day \<notin> set rest \<and> Transition_update Map_change \<notin> set rest"
    by blast
next
  fix w
  assume a: "\<not> active (map_transition s)
          \<and> find (\<lambda>w. colliderect (hitbox_rect (player s)) (w_rect w)) (player_exit_warps s) = Some w
          \<and> fired ds = [] \<and> fired ms = []"
  then have a1: "\<not> active (map_transition s)"
    and a2: "find (\<lambda>w. colliderect (hitbox_rect (player s)) (w_rect w)) (player_exit_warps s) = Some w"
    and a3: "fired ds = []" and a4: "fired ms = []"
    by simp_all
  from check_map_exit_overlap [OF a1 a2]
  have act: "active (map_transition (check_map_exit s))" by simp
  from update_head_quiet_tick [OF a1 a2 a3 a4, of c r] obtain s4
    where h: "update_head c r ds ms s = Inr s4"
      and p4: "player s4 = (player s)\<lparr>blocked := True, direction := (0, 0)\<rparr>"
      and c4: "cutscene_active s4 = cutscene_active s"
    by blast
  let ?s' = "draw_hitboxes (draw dt True (move_things_block c dt s4))"
  from h have u: "update c r ds ms dt True s = Inr ?s'"
    by (simp add: update_def)
  have b: "blocked (player s4)" by (simp add: p4)
  have p: "player ?s' = entity_update c (cutscene_active s) dt
                         ((player s)\<lparr>blocked := True, direction := (0, 0)\<rparr>)"
    by (simp add: draw_player move_things_block_player p4 c4)
  from act h b u p
  show "\<exists>s4 s'. active (map_transition (check_map_exit s))
        \<and> update_head c r ds ms s = Inr s4
        \<and> blocked (player s4)
        \<and> update c r ds ms dt True s = Inr s'
        \<and> player s' = entity_update c (cutscene_active s) dt
                         ((player s)\<lparr>blocked := True, direction := (0, 0)\<rparr>)"
    by blast
qed

lemma ex_update_head:
  "update_head ex_collab 0 idle_step idle_step ex_level = Inr ex_level_exit"
proof -
  have f: "fired idle_step = []" by (simp add: idle_step_def)
  show ?thesis
    unfolding update_head_def transition_update_quiet_tick [OF f] sum.case ex_check_map_exit
    by (simp add: update_rain_def get_transition_def set_active_def emit_def idle_step_def
          ex_level_exit_def ex_level_def ex_transition_def)
qed

theorem update_order_and_blocking_witness:
  "\<not> active (map_transition ex_level)
   \<and> fired idle_step = []
   \<and> (\<exists>s4 s'. active (map_transition (check_map_exit ex_level))
        \<and> update_head ex_collab 0 idle_step idle_step ex_level = Inr s4
        \<and> blocked (player s4)
        \<and> update ex_collab 0 idle_step idle_step 1 True ex_level = Inr s'
        \<and> player s' = entity_update ex_collab (cutscene_active ex_level) 1
                         ((player ex_level)\<lparr>blocked := True, direction := (0, 0)\<rparr>))"
proof -
  have i: "\<not> active (map_transition ex_level)"
    by (simp add: ex_level_def ex_transition_def)
  have f: "fired idle_step = []" by (simp add: idle_step_def)
  note t = update_order_and_blocking [of ex_collab 0 idle_step idle_step 1 ex_level,
             THEN conjunct2, rule_format, OF conjI [OF i conjI [OF ex_find_warp conjI [OF f f]]]]
  from i f t show ?thesis by (intro conjI)
qed

text \<open>
  C4 as stated fails: in the tick in which the unblocked player of \<open>ex_level\<close> walks into
  the exit warp, the map transition is activated and the sprites' update of that same
  tick is run on a blocked player.
\<close>

theorem update_blocks_same_tick_counterexample:
  "\<not> active (map_transition ex_level)
   \<and> \<not> blocked (player ex_level)
   \<and> active (map_transition (check_map_exit ex_level))
   \<and> update_head ex_collab 0 idle_step idle_step ex_level = Inr ex_level_exit
   \<and> blocked (player ex_level_exit)
   \<and> update ex_collab 0 idle_step idle_step 1 True ex_level
       = Inr (draw_hitboxes (draw 1 True (move_things_block ex_collab 1 ex_level_exit)))
   \<and> player (draw_hitboxes (draw 1 True (move_things_block ex_collab 1 ex_level_exit)))
       = entity_update ex_collab False 1 (player ex_level_exit)"
proof -
  have i: "\<not> active (map_transition ex_level)"
    by (simp add: ex_level_def ex_transition_def)
  have nb: "\<not> blocked (player ex_level)"
    by (simp add: ex_level_def ex_player_def)
  have a: "active (map_transition (check_map_exit ex_level))"
    unfolding ex_check_map_exit by simp
  have b: "blocked (player ex_level_exit)"
    by (simp add: ex_level_exit_def)
  have u: "update ex_collab 0 idle_step idle_step 1 True ex_level
       = Inr (draw_hitboxes (draw 1 True (move_things_block ex_collab 1 ex_level_exit)))"
    by (simp add: update_def ex_update_head)
  have ca: "cutscene_active ex_level_exit = False"
    by (simp add: ex_level_exit_def ex_level_def)
  have p: "player (draw_hitboxes (draw 1 True (move_things_block ex_collab 1 ex_level_exit)))
       = entity_update ex_collab False 1 (player ex_level_exit)"
    by (simp add: draw_player move_things_block_player ca)
  from i nb a ex_update_head b u p show ?thesis by (intro conjI)
qed

end
